theory Spec2Isabelle
  imports Complex_Main
begin

section \<open>Data model of \<^verbatim>\<open>App.py\<close>\<close>

subsection \<open>Request bodies\<close>

text \<open>
  A Python float, by its value: a finite number, an infinity or the not-a-number.
  Negative zero is not told from zero.
\<close>

datatype pyfloat = Finite rat | PosInf | NegInf | NaN

text \<open>
  What \<^verbatim>\<open>request.json\<close> holds, as Python has parsed it: \<^verbatim>\<open>None\<close>, a bool, an int
  (a number written without fraction or exponent, of any size), a float (any other
  number), a str, a list or a dict. The body itself is taken to be a JSON object, so
  \<^verbatim>\<open>data\<close> is a dictionary from keys to such values.
\<close>

datatype json =
    JNull
  | JBool bool
  | JInt int
  | JFloat pyfloat
  | JStr string
  | JArray "json list"
  | JObject "(string \<times> json) list"

type_synonym request_json = "string \<rightharpoonup> json"


definition dict_get_default :: "request_json \<Rightarrow> string \<Rightarrow> json \<Rightarrow> json" where
  "dict_get_default data k dflt = (case data k of None \<Rightarrow> dflt | Some v \<Rightarrow> v)"

subsection \<open>The mapped classes\<close>

text \<open>
  Every field carries its class name, since the three classes share the attribute
  \<^verbatim>\<open>id\<close>. A field has the type of what its column gives back when a row is loaded: an
  \<^verbatim>\<open>Integer\<close> an int, a \<^verbatim>\<open>String\<close> or \<^verbatim>\<open>Text\<close> a str, a \<^verbatim>\<open>Float\<close> a float, and
  \<^verbatim>\<open>None\<close> as well where the column is \<^verbatim>\<open>nullable=True\<close>.
\<close>

record User =
  User_id :: int
  User_username :: string
  User_password :: "string option"

record Product =
  Product_id :: int
  Product_name :: string
  Product_price :: pyfloat
  Product_description :: "string option"

record CartItem =
  CartItem_id :: int
  CartItem_user_id :: int
  CartItem_product_id :: int

text \<open>The stored state: the rows of the three tables, in the order of their insertion.\<close>

record database =
  User_table :: "User list"
  Product_table :: "Product list"
  CartItem_table :: "CartItem list"

text \<open>
  What the column declarations promise of a stored state beyond the types:
  \<^verbatim>\<open>primary_key=True\<close> on every \<^verbatim>\<open>id\<close>, and \<^verbatim>\<open>unique=True\<close> on the username.
\<close>

definition primary_keys :: "database \<Rightarrow> bool" where
  "primary_keys d \<longleftrightarrow>
     distinct (map User_id (User_table d)) \<and>
     distinct (map Product_id (Product_table d)) \<and>
     distinct (map CartItem_id (CartItem_table d))"

definition unique_usernames :: "database \<Rightarrow> bool" where
  "unique_usernames d \<longleftrightarrow> distinct (map User_username (User_table d))"

definition schema :: "database \<Rightarrow> bool" where
  "schema d \<longleftrightarrow> primary_keys d \<and> unique_usernames d"

section \<open>What the engine makes of a value\<close>

text \<open>
  The exceptions that leave a handler: \<^verbatim>\<open>AttributeError\<close> of an attribute of \<^verbatim>\<open>None\<close>;
  \<^verbatim>\<open>OverflowError\<close> of the driver for an int that does not fit a 64-bit integer;
  \<^verbatim>\<open>InterfaceError\<close> of the driver for a list or a dict (a \<^verbatim>\<open>ProgrammingError\<close> in
  later versions of it); \<^verbatim>\<open>StatementError\<close> of the mapper when \<^verbatim>\<open>float\<close> refuses the
  value meant for a \<^verbatim>\<open>Float\<close> column; \<^verbatim>\<open>IntegrityError\<close> for a \<^verbatim>\<open>NULL\<close> in a column
  declared \<^verbatim>\<open>nullable=False\<close>.
\<close>

datatype error =
    AttributeError
  | OverflowError
  | InterfaceError
  | StatementError
  | IntegrityError

text \<open>
  Library code that the handlers reach and that is not defined here is a parameter of
  the model: \<^verbatim>\<open>float\<close> of Python on an int beyond \<open>2\<^sup>5\<^sup>3\<close> (it rounds, or raises) and
  on a str (it parses, or raises), and the text that the engine writes for a float
  when a column of text receives one.
\<close>

record library =
  float_of_int :: "int \<Rightarrow> error + pyfloat"
  float_of_str :: "string \<Rightarrow> error + pyfloat"
  text_of_float :: "pyfloat \<Rightarrow> string"

text \<open>The decimal text of an integer, as the engine writes it.\<close>

fun digits :: "nat \<Rightarrow> string" where
  "digits n =
     (if n < 10 then [''0123456789'' ! n]
      else digits (n div 10) @ [''0123456789'' ! (n mod 10)])"

declare digits.simps [simp del]

definition decimal :: "int \<Rightarrow> string" where
  "decimal i = (if i < 0 then CHR ''-'' # digits (nat (- i)) else digits (nat i))"

text \<open>The driver binds a Python int as a signed integer of 64 bits.\<close>

definition sqlite_integer :: "int \<Rightarrow> bool" where
  "sqlite_integer n \<longleftrightarrow> - (2 ^ 63) \<le> n \<and> n < 2 ^ 63"

text \<open>
  What a column gives for a value sent to it: the exception raised, \<^verbatim>\<open>NULL\<close>
  (\<open>None\<close>), or the value it stores.
\<close>

type_synonym 'a sent = "error + 'a option"

text \<open>
  A \<^verbatim>\<open>Float\<close> column: the mapper sends \<^verbatim>\<open>float(value)\<close> unless the value is \<^verbatim>\<open>None\<close>.
  A float is itself, a bool is \<open>1\<close> or \<open>0\<close>, an int up to \<open>2\<^sup>5\<^sup>3\<close> is exact; a list or a
  dict is refused. The engine stores the not-a-number as \<^verbatim>\<open>NULL\<close>.
\<close>

definition nan_is_null :: "pyfloat \<Rightarrow> pyfloat option" where
  "nan_is_null x = (if x = NaN then None else Some x)"

fun Float_column :: "library \<Rightarrow> json \<Rightarrow> pyfloat sent" where
  "Float_column lib JNull = Inr None"
| "Float_column lib (JFloat x) = Inr (nan_is_null x)"
| "Float_column lib (JBool b) = Inr (Some (Finite (if b then 1 else 0)))"
| "Float_column lib (JInt n) =
     (if \<bar>n\<bar> \<le> 2 ^ 53 then Inr (Some (Finite (of_int n)))
      else map_sum (\<lambda>e. e) nan_is_null (float_of_int lib n))"
| "Float_column lib (JStr s) = map_sum (\<lambda>e. e) nan_is_null (float_of_str lib s)"
| "Float_column lib (JArray xs) = Inl StatementError"
| "Float_column lib (JObject kvs) = Inl StatementError"

text \<open>
  A \<^verbatim>\<open>String\<close> or \<^verbatim>\<open>Text\<close> column: the mapper sends the value as it is. The driver
  sends a bool as the integer \<open>1\<close> or \<open>0\<close> and refuses an int outside 64 bits, a list and
  a dict; the engine stores a str as it is and a number as its text. The length in
  \<^verbatim>\<open>String(80)\<close> is not enforced by the engine. The same is made of a value that a
  query compares with such a column.
\<close>

fun String_column :: "library \<Rightarrow> json \<Rightarrow> string sent" where
  "String_column lib JNull = Inr None"
| "String_column lib (JStr s) = Inr (Some s)"
| "String_column lib (JBool b) = Inr (Some (decimal (if b then 1 else 0)))"
| "String_column lib (JInt n) =
     (if sqlite_integer n then Inr (Some (decimal n)) else Inl OverflowError)"
| "String_column lib (JFloat x) = Inr (map_option (text_of_float lib) (nan_is_null x))"
| "String_column lib (JArray xs) = Inl InterfaceError"
| "String_column lib (JObject kvs) = Inl InterfaceError"

text \<open>
  An int sent as a key. Outside 64 bits the driver raises. The integers in the stored
  rows are inside, since the engine holds them: the definition grants this of the rows
  at hand, so that nothing has to be assumed of a state.
\<close>

definition stored_integers :: "database \<Rightarrow> int list" where
  "stored_integers d =
     map User_id (User_table d) @ map Product_id (Product_table d) @
     concat (map (\<lambda>c. [CartItem_id c, CartItem_user_id c, CartItem_product_id c])
               (CartItem_table d))"

definition bindable :: "database \<Rightarrow> int \<Rightarrow> bool" where
  "bindable d n \<longleftrightarrow> sqlite_integer n \<or> n \<in> set (stored_integers d)"

section \<open>Queries\<close>

text \<open>
  \<^verbatim>\<open>User.query.get(int(current_user.id))\<close>. The key is that of the user whom the session
  mechanism has loaded from a stored row.
\<close>

definition User_query_get :: "database \<Rightarrow> int \<Rightarrow> User option" where
  "User_query_get d pk = find (\<lambda>u. User_id u = pk) (User_table d)"

text \<open>
  \<^verbatim>\<open>Product.query.get(pk)\<close>: the row with that primary key, or \<^verbatim>\<open>None\<close>. The key comes
  from the URL, where \<^verbatim>\<open><int:product_id>\<close> takes every string of digits, or from a
  stored cart item.
\<close>

definition Product_query_get :: "database \<Rightarrow> int \<Rightarrow> error + Product option" where
  "Product_query_get d pk =
     (if bindable d pk then Inr (find (\<lambda>p. Product_id p = pk) (Product_table d))
      else Inl OverflowError)"


text \<open>
  \<^verbatim>\<open>CartItem.query.filter_by(user_id=current_user.id, product_id=product_id).first()\<close>,
  with the product id of the URL.
\<close>

definition CartItem_first :: "database \<Rightarrow> int \<Rightarrow> int \<Rightarrow> error + CartItem option" where
  "CartItem_first d uid pid =
     (if bindable d pid
      then Inr (find (\<lambda>c. CartItem_user_id c = uid \<and> CartItem_product_id c = pid)
                  (CartItem_table d))
      else Inl OverflowError)"

text \<open>\<^verbatim>\<open>user.cart\<close>, the relationship of \<^verbatim>\<open>User\<close> to the cart items that name it.\<close>

definition User_cart :: "database \<Rightarrow> User \<Rightarrow> CartItem list" where
  "User_cart d u = filter (\<lambda>c. CartItem_user_id c = User_id u) (CartItem_table d)"


section \<open>The session: pending writes and commit\<close>

text \<open>
  \<^verbatim>\<open>db.session.add\<close>, \<^verbatim>\<open>db.session.delete\<close> and an attribute assignment on a loaded
  object change nothing stored: they queue a write. \<^verbatim>\<open>db.session.commit()\<close> sends the
  queue in one transaction, which either ends stored as a whole or raises and is rolled
  back. A new row has no \<^verbatim>\<open>id\<close> until then.

  A queued write of a product holds, for each column it sets, what the column makes of
  the value when the statement is sent; an exception among them is raised then, in the
  commit. An update sets the columns that the handler has assigned.

  In every handler of the source all queries come before the first write, so a query
  reads the stored state. The source never turns on the engine's check of foreign keys,
  and \<^verbatim>\<open>Product\<close> declares no relationship to \<^verbatim>\<open>CartItem\<close>: a delete of a product is a
  delete of its row and of nothing else.
\<close>

datatype pending_write =
    Add_Product "string sent" "pyfloat sent" "string sent"
  | Add_CartItem int int
  | Delete_Product int
  | Delete_CartItem int
  | Dirty_Product int "string sent option" "pyfloat sent option" "string sent option"

record session =
  stored :: database
  pending :: "pending_write list"

text \<open>
  The key the engine gives a new row of a table whose keys are \<open>ids\<close>: one more than
  the largest, \<open>1\<close> in an empty table.
\<close>

definition next_id :: "int list \<Rightarrow> int" where
  "next_id ids = (if ids = [] then 1 else Max (set ids) + 1)"

text \<open>
  The exception of a statement's parameters, if there is one: the mapper converts for the
  \<^verbatim>\<open>Float\<close> column before the driver binds the parameters in the order of the columns.
\<close>

definition refused :: "string sent \<Rightarrow> pyfloat sent \<Rightarrow> string sent \<Rightarrow> error option" where
  "refused name price description =
     (case price of
        Inl e \<Rightarrow> Some e
      | Inr p \<Rightarrow>
          (case name of
             Inl e \<Rightarrow> Some e
           | Inr n \<Rightarrow> (case description of Inl e \<Rightarrow> Some e | Inr dsc \<Rightarrow> None)))"

text \<open>A column that an update does not set is sent nothing, which is never refused.\<close>

definition or_unset :: "'a sent option \<Rightarrow> 'a sent" where
  "or_unset x = (case x of None \<Rightarrow> Inr None | Some r \<Rightarrow> r)"

text \<open>The row after an update of the columns that are set, once none is refused.\<close>

definition updated :: "string sent option \<Rightarrow> pyfloat sent option \<Rightarrow> string sent option \<Rightarrow>
    Product \<Rightarrow> Product" where
  "updated name price description product =
     product
       \<lparr>Product_name := (case name of Some (Inr (Some n)) \<Rightarrow> n | _ \<Rightarrow> Product_name product),
        Product_price := (case price of Some (Inr (Some p)) \<Rightarrow> p | _ \<Rightarrow> Product_price product),
        Product_description :=
          (case description of Some (Inr dsc) \<Rightarrow> dsc | _ \<Rightarrow> Product_description product)\<rparr>"

fun execute :: "pending_write \<Rightarrow> database \<Rightarrow> error + database" where
  "execute (Add_Product name price description) d =
     (case refused name price description of
        Some e \<Rightarrow> Inl e
      | None \<Rightarrow>
          (case (name, price, description) of
             (Inr (Some n), Inr (Some p), Inr dsc) \<Rightarrow>
               Inr (d\<lparr>Product_table := Product_table d @
                 [\<lparr>Product_id = next_id (map Product_id (Product_table d)),
                   Product_name = n, Product_price = p, Product_description = dsc\<rparr>]\<rparr>)
           | _ \<Rightarrow> Inl IntegrityError))"
| "execute (Add_CartItem uid pid) d =
     Inr (d\<lparr>CartItem_table := CartItem_table d @
        [\<lparr>CartItem_id = next_id (map CartItem_id (CartItem_table d)),
          CartItem_user_id = uid, CartItem_product_id = pid\<rparr>]\<rparr>)"
| "execute (Delete_Product pk) d =
     Inr (d\<lparr>Product_table := filter (\<lambda>p. Product_id p \<noteq> pk) (Product_table d)\<rparr>)"
| "execute (Delete_CartItem pk) d =
     Inr (d\<lparr>CartItem_table := filter (\<lambda>c. CartItem_id c \<noteq> pk) (CartItem_table d)\<rparr>)"
| "execute (Dirty_Product pk name price description) d =
     (case refused (or_unset name) (or_unset price) (or_unset description) of
        Some e \<Rightarrow> Inl e
      | None \<Rightarrow>
          if name = Some (Inr None) \<or> price = Some (Inr None) then Inl IntegrityError
          else Inr (d\<lparr>Product_table :=
            map (\<lambda>p. if Product_id p = pk then updated name price description p else p)
              (Product_table d)\<rparr>))"

fun flush :: "pending_write list \<Rightarrow> database \<Rightarrow> error + database" where
  "flush [] d = Inr d"
| "flush (w # ws) d = (case execute w d of Inl e \<Rightarrow> Inl e | Inr d' \<Rightarrow> flush ws d')"

definition session_add :: "pending_write \<Rightarrow> session \<Rightarrow> session" where
  "session_add w s = s\<lparr>pending := pending s @ [w]\<rparr>"

definition commit :: "session \<Rightarrow> (error + unit) \<times> session" where
  "commit s =
     (case flush (pending s) (stored s) of
        Inl e \<Rightarrow> (Inl e, s\<lparr>pending := []\<rparr>)
      | Inr d \<Rightarrow> (Inr (), \<lparr>stored = d, pending = []\<rparr>))"

text \<open>
  What a handler gives back: the response it returns or the exception that leaves it,
  and the session as it is then.
\<close>

type_synonym 'a result = "(error + 'a) \<times> session"

section \<open>Responses\<close>



definition msg_product_added :: string where
  "msg_product_added = ''Produto adicionado com sucesso''"

definition msg_product_invalid :: string where
  "msg_product_invalid = ''Dados inv'' @ [CHR 0xC3, CHR 0xA1] @ ''lidos para o produto''"

definition msg_product_deleted :: string where
  "msg_product_deleted = ''Produto deletado com sucesso''"

definition msg_product_not_found :: string where
  "msg_product_not_found = ''Produto n'' @ [CHR 0xC3, CHR 0xA3] @ ''o encontrado''"

definition msg_product_updated :: string where
  "msg_product_updated = ''Produto atualizado com sucesso''"

definition msg_cart_added :: string where
  "msg_cart_added = ''O Item foi adicionado com Sucesso''"

definition msg_cart_add_failed :: string where
  "msg_cart_add_failed = ''Falha ao adiciona ao Carrinho''"

definition msg_cart_removed :: string where
  "msg_cart_removed = ''O Item foi Removido com Sucesso''"

definition msg_cart_remove_failed :: string where
  "msg_cart_remove_failed = ''Falha ao Remover ao Carrinho''"

definition msg_checkout :: string where
  "msg_checkout = ''Checkout com sucesso. carrinho foi limpo''"

text \<open>One dictionary of the list \<^verbatim>\<open>view_cart\<close> returns.\<close>

record cart_entry =
  entry_id :: int
  entry_user_id :: int
  entry_product_id :: int
  entry_product_name :: string
  entry_product_price :: pyfloat

text \<open>
  What \<^verbatim>\<open>jsonify\<close> is given: a message, the four fields of one product, the
  \<^verbatim>\<open>(id, name, price)\<close> triples of the product list, or the cart's entries.
\<close>

datatype body =
    Message string
  | Product_details int string pyfloat "string option"
  | Product_list "(int \<times> string \<times> pyfloat) list"
  | Cart_content "cart_entry list"

text \<open>A response is a body and an HTTP status (\<open>200\<close> where the source gives none).\<close>

type_synonym response = "body \<times> nat"

section \<open>Authentication\<close>


section \<open>Catalog handlers\<close>

text \<open>
  The end of a handler, \<^verbatim>\<open>db.session.commit(); return r\<close>: an exception of the commit
  leaves the handler before the \<^verbatim>\<open>return\<close>.
\<close>

definition commit_return :: "response \<Rightarrow> session \<Rightarrow> response result" where
  "commit_return r s =
     (case commit s of (Inl e, s') \<Rightarrow> (Inl e, s') | (Inr u, s') \<Rightarrow> (Inr r, s'))"

definition add_product :: "library \<Rightarrow> request_json \<Rightarrow> session \<Rightarrow> response result" where
  "add_product lib data s =
     (case (data ''name'', data ''price'') of
        (Some name, Some price) \<Rightarrow>
          commit_return (Message msg_product_added, 200)
            (session_add
               (Add_Product (String_column lib name) (Float_column lib price)
                  (String_column lib (dict_get_default data ''description'' (JStr [])))) s)
      | _ \<Rightarrow> (Inr (Message msg_product_invalid, 400), s))"

definition delete_product :: "int \<Rightarrow> session \<Rightarrow> response result" where
  "delete_product product_id s =
     (case Product_query_get (stored s) product_id of
        Inl e \<Rightarrow> (Inl e, s)
      | Inr (Some product) \<Rightarrow>
          commit_return (Message msg_product_deleted, 200)
            (session_add (Delete_Product (Product_id product)) s)
      | Inr None \<Rightarrow> (Inr (Message msg_product_not_found, 404), s))"


definition update_product :: "library \<Rightarrow> int \<Rightarrow> request_json \<Rightarrow> session \<Rightarrow> response result" where
  "update_product lib product_id data s =
     (case Product_query_get (stored s) product_id of
        Inl e \<Rightarrow> (Inl e, s)
      | Inr None \<Rightarrow> (Inr (Message msg_product_not_found, 404), s)
      | Inr (Some product) \<Rightarrow>
          commit_return (Message msg_product_updated, 200)
            (session_add
               (Dirty_Product (Product_id product)
                  (map_option (String_column lib) (data ''name''))
                  (map_option (Float_column lib) (data ''price''))
                  (map_option (String_column lib) (data ''description''))) s))"

definition get_products :: "session \<Rightarrow> response result" where
  "get_products s =
     (Inr (Product_list
             (map (\<lambda>product. (Product_id product, Product_name product, Product_price product))
                (Product_table (stored s))), 200), s)"

section \<open>Cart handlers\<close>

text \<open>
  \<open>current_user_id\<close> is \<^verbatim>\<open>current_user.id\<close>, the identity that the session mechanism
  resolved before the handler runs; behind \<^verbatim>\<open>login_required\<close> it is the id of a stored
  user, and the handlers look the user up again all the same.
\<close>

definition add_to_cart :: "int \<Rightarrow> int \<Rightarrow> session \<Rightarrow> response result" where
  "add_to_cart current_user_id product_id s =
     (let user = User_query_get (stored s) current_user_id in
      case Product_query_get (stored s) product_id of
        Inl e \<Rightarrow> (Inl e, s)
      | Inr product \<Rightarrow>
          (case (user, product) of
             (Some user, Some product) \<Rightarrow>
               commit_return (Message msg_cart_added, 200)
                 (session_add (Add_CartItem (User_id user) (Product_id product)) s)
           | _ \<Rightarrow> (Inr (Message msg_cart_add_failed, 400), s)))"

definition remove_from_cart :: "int \<Rightarrow> int \<Rightarrow> session \<Rightarrow> response result" where
  "remove_from_cart current_user_id product_id s =
     (case CartItem_first (stored s) current_user_id product_id of
        Inl e \<Rightarrow> (Inl e, s)
      | Inr (Some cart_item) \<Rightarrow>
          commit_return (Message msg_cart_removed, 200)
            (session_add (Delete_CartItem (CartItem_id cart_item)) s)
      | Inr None \<Rightarrow> (Inr (Message msg_cart_remove_failed, 400), s))"

text \<open>
  The loop of \<^verbatim>\<open>view_cart\<close>. \<^verbatim>\<open>product.name\<close> on the \<^verbatim>\<open>None\<close> that
  \<^verbatim>\<open>Product.query.get\<close> returns for a missing product raises \<^verbatim>\<open>AttributeError\<close>.
\<close>

fun view_cart_loop :: "database \<Rightarrow> CartItem list \<Rightarrow> cart_entry list \<Rightarrow> error + cart_entry list" where
  "view_cart_loop d [] cart_content = Inr cart_content"
| "view_cart_loop d (cart_item # cart_itens) cart_content =
     (case Product_query_get d (CartItem_product_id cart_item) of
        Inl e \<Rightarrow> Inl e
      | Inr None \<Rightarrow> Inl AttributeError
      | Inr (Some product) \<Rightarrow>
          view_cart_loop d cart_itens
            (cart_content @
               [\<lparr>entry_id = CartItem_id cart_item,
                 entry_user_id = CartItem_user_id cart_item,
                 entry_product_id = CartItem_product_id cart_item,
                 entry_product_name = Product_name product,
                 entry_product_price = Product_price product\<rparr>]))"

text \<open>\<^verbatim>\<open>user.cart\<close> on a \<^verbatim>\<open>user\<close> that is \<^verbatim>\<open>None\<close> raises \<^verbatim>\<open>AttributeError\<close> as well.\<close>

definition view_cart :: "int \<Rightarrow> session \<Rightarrow> response result" where
  "view_cart current_user_id s =
     (case User_query_get (stored s) current_user_id of
        None \<Rightarrow> (Inl AttributeError, s)
      | Some user \<Rightarrow>
          (case view_cart_loop (stored s) (User_cart (stored s) user) [] of
             Inl e \<Rightarrow> (Inl e, s)
           | Inr cart_content \<Rightarrow> (Inr (Cart_content cart_content, 200), s)))"

fun checkout_loop :: "CartItem list \<Rightarrow> session \<Rightarrow> session" where
  "checkout_loop [] s = s"
| "checkout_loop (cart_item # cart_itens) s =
     checkout_loop cart_itens (session_add (Delete_CartItem (CartItem_id cart_item)) s)"

definition checkout :: "int \<Rightarrow> session \<Rightarrow> response result" where
  "checkout current_user_id s =
     (case User_query_get (stored s) current_user_id of
        None \<Rightarrow> (Inl AttributeError, s)
      | Some user \<Rightarrow>
          commit_return (Message msg_checkout, 200)
            (checkout_loop (User_cart (stored s) user) s))"

section \<open>One request\<close>

text \<open>
  A request starts with an empty session on the stored state and ends with the session
  removed: writes that no commit has stored are rolled back, so what the next request
  finds is \<open>stored\<close>. This holds as well when the handler left by an exception.
\<close>

definition request :: "(session \<Rightarrow> 'a result) \<Rightarrow> database \<Rightarrow> (error + 'a) \<times> database" where
  "request handler d =
     (case handler \<lparr>stored = d, pending = []\<rparr> of (r, s) \<Rightarrow> (r, stored s))"

text \<open>The outcome of a request and the state it leaves stored.\<close>

definition outcome :: "(session \<Rightarrow> 'a result) \<Rightarrow> database \<Rightarrow> error + 'a" where
  "outcome handler d = fst (request handler d)"

definition after :: "(session \<Rightarrow> 'a result) \<Rightarrow> database \<Rightarrow> database" where
  "after handler d = snd (request handler d)"

text \<open>
  The specification's names for the failures: a status \<open>400\<close> of a catalog handler is
  its \<open>ValidationError\<close>, of a cart handler its \<open>InvalidOperation\<close>; \<open>404\<close> is
  \<open>NotFoundError\<close>, \<open>401\<close> is \<open>AuthenticationFailure\<close>. An exception that leaves the
  handler is none of them.
\<close>

definition status :: "error + response \<Rightarrow> nat option" where
  "status r = (case r of Inl e \<Rightarrow> None | Inr (b, st) \<Rightarrow> Some st)"

definition succeeded :: "error + response \<Rightarrow> bool" where
  "succeeded r \<longleftrightarrow> status r = Some 200"


definition InvalidOperation :: "error + response \<Rightarrow> bool" where
  "InvalidOperation r \<longleftrightarrow> status r = Some 400"

definition NotFoundError :: "error + response \<Rightarrow> bool" where
  "NotFoundError r \<longleftrightarrow> status r = Some 404"


definition crashed :: "error + 'a \<Rightarrow> bool" where
  "crashed r \<longleftrightarrow> (case r of Inl e \<Rightarrow> True | Inr x \<Rightarrow> False)"

section \<open>Example states\<close>

text \<open>
  A shop with two users and two products. Alice's cart holds the pen twice and the ink
  once, Bob's holds the pen.
\<close>

definition alice :: User where
  "alice = \<lparr>User_id = 1, User_username = ''alice'', User_password = Some ''secret''\<rparr>"

definition bob :: User where
  "bob = \<lparr>User_id = 2, User_username = ''bob'', User_password = Some ''hunter2''\<rparr>"

definition pen :: Product where
  "pen = \<lparr>Product_id = 1, Product_name = ''Pen'', Product_price = Finite (3 / 2),
          Product_description = Some []\<rparr>"

definition ink :: Product where
  "ink = \<lparr>Product_id = 2, Product_name = ''Ink'', Product_price = Finite 4,
          Product_description = Some ''blue''\<rparr>"

definition shop :: database where
  "shop = \<lparr>User_table = [alice, bob], Product_table = [pen, ink],
     CartItem_table =
       [\<lparr>CartItem_id = 1, CartItem_user_id = 1, CartItem_product_id = 1\<rparr>,
        \<lparr>CartItem_id = 2, CartItem_user_id = 2, CartItem_product_id = 1\<rparr>,
        \<lparr>CartItem_id = 3, CartItem_user_id = 1, CartItem_product_id = 2\<rparr>,
        \<lparr>CartItem_id = 4, CartItem_user_id = 1, CartItem_product_id = 1\<rparr>]\<rparr>"

text \<open>The shop once the ink is deleted: Alice's third cart item names no product.\<close>

definition orphaned :: database where
  "orphaned = shop\<lparr>Product_table := [pen]\<rparr>"

text \<open>
  A session on the shop whose queue holds a delete that the engine accepts and then a
  product without a name, which it refuses.
\<close>

definition doomed :: session where
  "doomed = \<lparr>stored = shop,
     pending = [Delete_CartItem 2, Add_Product (Inr None) (Inr (Some (Finite 1))) (Inr None)]\<rparr>"

text \<open>
  A kiosk with one user, before anything is in a cart, and after Alice has added the ink
  and the ink has been deleted from the catalog.
\<close>

definition kiosk_start :: database where
  "kiosk_start = \<lparr>User_table = [alice], Product_table = [pen, ink], CartItem_table = []\<rparr>"

definition kiosk :: database where
  "kiosk = \<lparr>User_table = [alice], Product_table = [pen],
     CartItem_table = [\<lparr>CartItem_id = 1, CartItem_user_id = 1, CartItem_product_id = 2\<rparr>]\<rparr>"


section \<open>What a cart handler may touch\<close>

text \<open>The cart items owned by the user with id \<open>V\<close>.\<close>

definition cart_of :: "database \<Rightarrow> int \<Rightarrow> CartItem list" where
  "cart_of d V = filter (\<lambda>c. CartItem_user_id c = V) (CartItem_table d)"

text \<open>
  From \<open>d\<close> to \<open>d'\<close> the cart of \<open>V\<close>, the products and the users are the same.
\<close>

definition untouched :: "int \<Rightarrow> database \<Rightarrow> database \<Rightarrow> bool" where
  "untouched V d d' \<longleftrightarrow>
     cart_of d' V = cart_of d V \<and> Product_table d' = Product_table d \<and>
     User_table d' = User_table d"

section \<open>What a cart entry shows\<close>

text \<open>
  The entry \<open>e\<close> is the cart item \<open>c\<close> with the name and price that the product it
  names has in \<open>d\<close>.
\<close>

definition enriches :: "database \<Rightarrow> CartItem \<Rightarrow> cart_entry \<Rightarrow> bool" where
  "enriches d c e \<longleftrightarrow>
     entry_id e = CartItem_id c \<and> entry_user_id e = CartItem_user_id c \<and>
     entry_product_id e = CartItem_product_id c \<and>
     (case find (\<lambda>p. Product_id p = CartItem_product_id c) (Product_table d) of
        None \<Rightarrow> False
      | Some product \<Rightarrow>
          entry_product_name e = Product_name product \<and>
          entry_product_price e = Product_price product)"

section \<open>Counting what names a product\<close>

text \<open>How many cart items, and how many entries of a viewed cart, name the product \<open>P\<close>.\<close>

definition items_for :: "int \<Rightarrow> CartItem list \<Rightarrow> nat" where
  "items_for P cs = length (filter (\<lambda>c. CartItem_product_id c = P) cs)"

definition entries_for :: "int \<Rightarrow> cart_entry list \<Rightarrow> nat" where
  "entries_for P es = length (filter (\<lambda>e. entry_product_id e = P) es)"

section \<open>Values that a column keeps\<close>

text \<open>
  The float that a value of the body is, when it is a number that a \<^verbatim>\<open>Float\<close> column
  keeps as it is: a float other than the not-a-number, or an int of magnitude at most
  \<open>2\<^sup>5\<^sup>3\<close>.
\<close>

definition exact_float :: "json \<Rightarrow> pyfloat option" where
  "exact_float v =
     (case v of
        JFloat x \<Rightarrow> (if x = NaN then None else Some x)
      | JInt n \<Rightarrow> (if \<bar>n\<bar> \<le> 2 ^ 53 then Some (Finite (of_int n)) else None)
      | _ \<Rightarrow> None)"


section \<open>Lists, keys and the session\<close>

lemma stored_session_add: "stored (session_add w s) = stored s"
  by (simp add: session_add_def)

lemma checkout_loop_eq:
  "checkout_loop cs s = s\<lparr>pending := pending s @ map (\<lambda>c. Delete_CartItem (CartItem_id c)) cs\<rparr>"
  by (induction cs arbitrary: s) (simp_all add: session_add_def)

lemma flush_deletes:
  "flush (map (\<lambda>c. Delete_CartItem (CartItem_id c)) cs) d =
     Inr (d\<lparr>CartItem_table :=
       filter (\<lambda>c. CartItem_id c \<notin> CartItem_id ` set cs) (CartItem_table d)\<rparr>)"
  by (induction cs arbitrary: d) (simp_all add: conj_commute)

lemma find_SomeD: "find P xs = Some x \<Longrightarrow> P x \<and> x \<in> set xs"
  by (induction xs) (auto split: if_splits)

lemma find_map_same:
  "(\<And>x. P (f x) = P x) \<Longrightarrow> find P (map f xs) = map_option f (find P xs)"
  by (induction xs) simp_all


lemma filter_key_remove1:
  "distinct (map f xs) \<Longrightarrow> c \<in> set xs \<Longrightarrow> filter (\<lambda>x. f x \<noteq> f c) xs = remove1 c xs"
proof (induction xs)
  case Nil
  then show ?case by simp
next
  case (Cons x xs)
  show ?case
  proof (cases "x = c")
    case True
    with Cons.prems have "f c \<notin> f ` set xs" by simp
    then have "\<forall>y\<in>set xs. f y \<noteq> f c" by (metis imageI)
    then have "filter (\<lambda>x. f x \<noteq> f c) xs = xs" by (simp add: filter_id_conv)
    with True show ?thesis by simp
  next
    case False
    with Cons.prems have "c \<in> set xs" "f x \<noteq> f c" by auto
    with Cons show ?thesis using False by simp
  qed
qed

lemma distinct_map_key:
  "distinct (map f xs) \<Longrightarrow> x \<in> set xs \<Longrightarrow> y \<in> set xs \<Longrightarrow> f x = f y \<Longrightarrow> x = y"
  by (auto simp: distinct_map dest: inj_onD)

lemma length_filter_remove1:
  "c \<in> set xs \<Longrightarrow> Q c \<Longrightarrow> length (filter Q (remove1 c xs)) + 1 = length (filter Q xs)"
proof -
  assume c: "c \<in> set xs" "Q c"
  then have "c \<in> set (filter Q xs)" by simp
  then have "length (filter Q xs) > 0" by (cases "filter Q xs") auto
  with c show ?thesis by (simp add: filter_remove1 length_remove1)
qed

lemma list_all2_right:
  "list_all2 R xs ys \<Longrightarrow> y \<in> set ys \<Longrightarrow> \<exists>x\<in>set xs. R x y"
  by (metis in_set_conv_nth list_all2_conv_all_nth)

lemma next_id_fresh: "next_id ids \<notin> set ids"
proof (cases "ids = []")
  case True
  then show ?thesis by simp
next
  case False
  have "Max (set ids) + 1 \<in> set ids \<Longrightarrow> False"
  proof -
    assume "Max (set ids) + 1 \<in> set ids"
    then have "Max (set ids) + 1 \<le> Max (set ids)" by (intro Max_ge) simp_all
    then show False by simp
  qed
  with False show ?thesis by (auto simp: next_id_def)
qed

subsection \<open>Keys that bind\<close>

lemma bindable_Product_id:
  "pk \<in> set (map Product_id (Product_table d)) \<Longrightarrow> bindable d pk"
  by (auto simp: bindable_def stored_integers_def)

lemma bindable_CartItem_product_id:
  "c \<in> set (CartItem_table d) \<Longrightarrow> bindable d (CartItem_product_id c)"
  by (auto simp: bindable_def stored_integers_def)

lemma bindable_sqlite_integer: "sqlite_integer pk \<Longrightarrow> bindable d pk"
  by (simp add: bindable_def)

lemma Product_query_get_stored:
  assumes "P \<in> set (map Product_id (Product_table d))"
  shows "\<exists>p. Product_query_get d P = Inr (Some p) \<and> Product_id p = P \<and> p \<in> set (Product_table d)"
proof (cases "find (\<lambda>p. Product_id p = P) (Product_table d)")
  case None
  with assms show ?thesis by (auto simp: find_None_iff)
next
  case (Some p)
  with assms find_SomeD [OF Some] show ?thesis
    by (simp add: Product_query_get_def bindable_Product_id)
qed

lemma Product_query_get_Some:
  "Product_query_get d P = Inr (Some p) \<Longrightarrow> Product_id p = P \<and> p \<in> set (Product_table d)"
  by (auto simp: Product_query_get_def split: if_splits dest: find_SomeD)

lemma Product_query_get_None:
  "Product_query_get d P = Inr None \<Longrightarrow> P \<notin> set (map Product_id (Product_table d))"
  by (auto simp: Product_query_get_def find_None_iff split: if_splits)

lemma Product_query_get_Inl:
  "Product_query_get d P = Inl e \<Longrightarrow>
     e = OverflowError \<and> \<not> sqlite_integer P \<and> P \<notin> set (map Product_id (Product_table d))"
  by (auto simp: Product_query_get_def bindable_def stored_integers_def split: if_splits)

lemma Product_query_get_missing:
  "P \<notin> set (map Product_id (Product_table d)) \<Longrightarrow> sqlite_integer P \<Longrightarrow>
     Product_query_get d P = Inr None"
  by (auto simp: Product_query_get_def bindable_def find_None_iff)

lemma Product_query_get_find:
  "bindable d P \<Longrightarrow>
     Product_query_get d P = Inr (find (\<lambda>p. Product_id p = P) (Product_table d))"
  by (simp add: Product_query_get_def)

lemma User_query_get_user:
  "User_query_get d U = Some u \<Longrightarrow> User_id u = U \<and> u \<in> set (User_table d)"
  unfolding User_query_get_def by (drule find_SomeD) simp

lemma User_query_get_exists:
  "U \<in> set (map User_id (User_table d)) \<Longrightarrow> \<exists>u. User_query_get d U = Some u"
  unfolding User_query_get_def by (cases "find (\<lambda>u. User_id u = U) (User_table d)")
    (auto simp: find_None_iff)

lemma User_query_get_None:
  "User_query_get d U = None \<longleftrightarrow> U \<notin> set (map User_id (User_table d))"
  by (auto simp: User_query_get_def find_None_iff)

subsection \<open>What a request of each handler comes to\<close>

lemma request_add_to_cart:
  "request (add_to_cart U P) d =
     (case Product_query_get d P of
        Inl e \<Rightarrow> (Inl e, d)
      | Inr product \<Rightarrow>
          (case (User_query_get d U, product) of
             (Some u, Some p) \<Rightarrow>
               (Inr (Message msg_cart_added, 200),
                d\<lparr>CartItem_table := CartItem_table d @
                  [\<lparr>CartItem_id = next_id (map CartItem_id (CartItem_table d)),
                    CartItem_user_id = User_id u, CartItem_product_id = Product_id p\<rparr>]\<rparr>)
           | _ \<Rightarrow> (Inr (Message msg_cart_add_failed, 400), d)))"
  by (simp add: request_def add_to_cart_def commit_return_def commit_def session_add_def
      split: option.splits sum.splits)

lemma request_remove_from_cart:
  "request (remove_from_cart U P) d =
     (case CartItem_first d U P of
        Inl e \<Rightarrow> (Inl e, d)
      | Inr (Some c) \<Rightarrow>
          (Inr (Message msg_cart_removed, 200),
           d\<lparr>CartItem_table := filter (\<lambda>x. CartItem_id x \<noteq> CartItem_id c) (CartItem_table d)\<rparr>)
      | Inr None \<Rightarrow> (Inr (Message msg_cart_remove_failed, 400), d))"
  by (simp add: request_def remove_from_cart_def commit_return_def commit_def session_add_def
      split: option.splits sum.splits)

lemma request_view_cart:
  "request (view_cart U) d =
     (case User_query_get d U of
        None \<Rightarrow> (Inl AttributeError, d)
      | Some u \<Rightarrow>
          (case view_cart_loop d (User_cart d u) [] of
             Inl e \<Rightarrow> (Inl e, d)
           | Inr es \<Rightarrow> (Inr (Cart_content es, 200), d)))"
  by (simp add: request_def view_cart_def split: option.splits sum.splits)

lemma request_checkout:
  "request (checkout U) d =
     (case User_query_get d U of
        None \<Rightarrow> (Inl AttributeError, d)
      | Some u \<Rightarrow>
          (Inr (Message msg_checkout, 200),
           d\<lparr>CartItem_table :=
             filter (\<lambda>c. CartItem_id c \<notin> CartItem_id ` set (User_cart d u)) (CartItem_table d)\<rparr>))"
  by (simp add: request_def checkout_def commit_return_def commit_def checkout_loop_eq
      flush_deletes split: option.splits)

lemma request_delete_product:
  "request (delete_product P) d =
     (case Product_query_get d P of
        Inl e \<Rightarrow> (Inl e, d)
      | Inr (Some p) \<Rightarrow>
          (Inr (Message msg_product_deleted, 200),
           d\<lparr>Product_table := filter (\<lambda>x. Product_id x \<noteq> Product_id p) (Product_table d)\<rparr>)
      | Inr None \<Rightarrow> (Inr (Message msg_product_not_found, 404), d))"
  by (simp add: request_def delete_product_def commit_return_def commit_def session_add_def
      split: option.splits sum.splits)


subsection \<open>Evaluating on the example states\<close>

lemmas queries =
  User_query_get_def Product_query_get_def CartItem_first_def User_cart_def cart_of_def
  bindable_def sqlite_integer_def

lemmas examples = shop_def orphaned_def alice_def bob_def pen_def ink_def

section \<open>Checkout\<close>

lemma outcome_checkout:
  "User_query_get d U = Some u \<Longrightarrow> outcome (checkout U) d = Inr (Message msg_checkout, 200)"
  by (simp add: outcome_def request_checkout)

lemma after_checkout:
  "User_query_get d U = Some u \<Longrightarrow>
   after (checkout U) d =
     d\<lparr>CartItem_table :=
       filter (\<lambda>c. CartItem_id c \<notin> CartItem_id ` set (User_cart d u)) (CartItem_table d)\<rparr>"
  by (simp add: after_def request_checkout)

lemma User_cart_after_checkout:
  assumes "User_query_get d U = Some u"
  shows "filter (\<lambda>c. CartItem_user_id c = U) (CartItem_table (after (checkout U) d)) = []"
proof -
  from assms have U: "User_id u = U" by (simp add: User_query_get_user)
  have "\<And>c. c \<in> set (CartItem_table d) \<Longrightarrow> CartItem_user_id c = U \<Longrightarrow>
          CartItem_id c \<in> CartItem_id ` set (User_cart d u)"
    by (simp add: User_cart_def U)
  then show ?thesis
    by (auto simp: after_checkout [OF assms] filter_empty_conv)
qed

text \<open>
  Claim C2. For every user \<open>U\<close> and every stored state, whatever the number of cart items
  of \<open>U\<close>: \<^verbatim>\<open>checkout\<close> by \<open>U\<close> succeeds and leaves no cart item owned by \<open>U\<close>, and
  a \<^verbatim>\<open>view_cart\<close> by \<open>U\<close> right after it returns the empty list.
\<close>

theorem checkout_then_view_cart_empty:
  assumes "U \<in> set (map User_id (User_table d))"
  shows "succeeded (outcome (checkout U) d) \<and>
         filter (\<lambda>c. CartItem_user_id c = U) (CartItem_table (after (checkout U) d)) = [] \<and>
         outcome (view_cart U) (after (checkout U) d) = Inr (Cart_content [], 200)"
proof -
  from assms obtain u where u: "User_query_get d U = Some u"
    using User_query_get_exists by blast
  then have U: "User_id u = U" by (simp add: User_query_get_user)
  have emp: "filter (\<lambda>c. CartItem_user_id c = U) (CartItem_table (after (checkout U) d)) = []"
    by (rule User_cart_after_checkout [OF u])
  have "User_query_get (after (checkout U) d) U = Some u"
    using u by (simp add: after_checkout [OF u] User_query_get_def)
  then have "outcome (view_cart U) (after (checkout U) d) = Inr (Cart_content [], 200)"
    using emp by (simp add: outcome_def request_view_cart User_cart_def U)
  with u emp show ?thesis
    by (simp add: outcome_checkout succeeded_def status_def)
qed

theorem checkout_then_view_cart_empty_witness:
  "1 \<in> set (map User_id (User_table shop)) \<and>
   length (filter (\<lambda>c. CartItem_user_id c = 1) (CartItem_table shop)) = 3 \<and>
   succeeded (outcome (checkout 1) shop) \<and>
   filter (\<lambda>c. CartItem_user_id c = 1) (CartItem_table (after (checkout 1) shop)) = [] \<and>
   outcome (view_cart 1) (after (checkout 1) shop) = Inr (Cart_content [], 200)"
  using checkout_then_view_cart_empty [of 1 shop]
  by (simp add: shop_def alice_def bob_def)

section \<open>Failure leaves the stored state\<close>

lemma commit_return_stored:
  "\<not> succeeded (fst (commit_return (b, 200) s)) \<Longrightarrow> stored (snd (commit_return (b, 200) s)) = stored s"
  by (auto simp: commit_return_def commit_def succeeded_def status_def split: sum.splits)

lemma stored_checkout_loop: "stored (checkout_loop cs s) = stored s"
  by (simp add: checkout_loop_eq)

text \<open>
  Claim C1. Each of the four cart handlers is all-or-nothing, from any session (whatever
  writes are already pending): when it does not end in success, be it by a \<open>400\<close>, by an
  exception before the commit or by an exception of the commit, the stored state is the
  one it started from; so is then the state a whole request leaves.
\<close>

theorem cart_handlers_all_or_nothing:
  "(\<not> succeeded (fst (add_to_cart U P s)) \<longrightarrow> stored (snd (add_to_cart U P s)) = stored s) \<and>
   (\<not> succeeded (fst (remove_from_cart U P s)) \<longrightarrow>
      stored (snd (remove_from_cart U P s)) = stored s) \<and>
   (\<not> succeeded (fst (view_cart U s)) \<longrightarrow> stored (snd (view_cart U s)) = stored s) \<and>
   (\<not> succeeded (fst (checkout U s)) \<longrightarrow> stored (snd (checkout U s)) = stored s) \<and>
   (\<not> succeeded (outcome (add_to_cart U P) d) \<longrightarrow> after (add_to_cart U P) d = d) \<and>
   (\<not> succeeded (outcome (remove_from_cart U P) d) \<longrightarrow> after (remove_from_cart U P) d = d) \<and>
   (\<not> succeeded (outcome (view_cart U) d) \<longrightarrow> after (view_cart U) d = d) \<and>
   (\<not> succeeded (outcome (checkout U) d) \<longrightarrow> after (checkout U) d = d)"
proof -
  have add: "\<not> succeeded (fst (add_to_cart U P s)) \<Longrightarrow> stored (snd (add_to_cart U P s)) = stored s"
    for s
    using commit_return_stored [of "Message msg_cart_added"]
    by (auto simp: add_to_cart_def Let_def stored_session_add split: option.splits sum.splits)
  have rem: "\<not> succeeded (fst (remove_from_cart U P s)) \<Longrightarrow>
      stored (snd (remove_from_cart U P s)) = stored s" for s
    using commit_return_stored [of "Message msg_cart_removed"]
    by (auto simp: remove_from_cart_def stored_session_add split: option.splits sum.splits)
  have view: "stored (snd (view_cart U s)) = stored s" for s
    by (simp add: view_cart_def split: option.splits sum.splits)
  have out: "\<not> succeeded (fst (checkout U s)) \<Longrightarrow> stored (snd (checkout U s)) = stored s" for s
    using commit_return_stored [of "Message msg_checkout"]
    by (auto simp: checkout_def stored_checkout_loop split: option.splits)
  have req: "\<not> succeeded (outcome h d) \<longrightarrow> after h d = d"
    if "\<And>s. \<not> succeeded (fst (h s)) \<Longrightarrow> stored (snd (h s)) = stored s" for h
    using that [of "\<lparr>stored = d, pending = []\<rparr>"]
    by (cases "h \<lparr>stored = d, pending = []\<rparr>") (simp add: outcome_def after_def request_def)
  show ?thesis
    using add rem view out req [of "add_to_cart U P"] req [of "remove_from_cart U P"]
      req [of "view_cart U"] req [of "checkout U"]
    by simp
qed

theorem cart_handlers_all_or_nothing_witness:
  "\<not> succeeded (outcome (add_to_cart 1 2) orphaned) \<and>
   after (add_to_cart 1 2) orphaned = orphaned \<and>
   \<not> succeeded (outcome (remove_from_cart 1 5) orphaned) \<and>
   after (remove_from_cart 1 5) orphaned = orphaned \<and>
   outcome (view_cart 1) orphaned = Inl AttributeError \<and>
   after (view_cart 1) orphaned = orphaned \<and>
   outcome (checkout 7) shop = Inl AttributeError \<and>
   after (checkout 7) shop = shop \<and>
   fst (add_to_cart 1 1 doomed) = Inl IntegrityError \<and>
   stored (snd (add_to_cart 1 1 doomed)) = shop"
proof -
  have 1: "outcome (add_to_cart 1 2) orphaned = Inr (Message msg_cart_add_failed, 400)"
    by (simp add: outcome_def request_add_to_cart queries examples)
  have 2: "outcome (remove_from_cart 1 5) orphaned = Inr (Message msg_cart_remove_failed, 400)"
    by (simp add: outcome_def request_remove_from_cart queries examples)
  have 3: "outcome (view_cart 1) orphaned = Inl AttributeError"
    by (simp add: outcome_def request_view_cart queries stored_integers_def examples)
  have 4: "outcome (checkout 7) shop = Inl AttributeError"
    by (simp add: outcome_def request_checkout queries examples)
  have 5: "fst (add_to_cart 1 1 doomed) = Inl IntegrityError"
    by (simp add: add_to_cart_def commit_return_def commit_def session_add_def refused_def
        queries doomed_def examples)
  note fails = succeeded_def status_def
  have a: "after (add_to_cart 1 2) orphaned = orphaned"
    using cart_handlers_all_or_nothing [of 1 2 doomed orphaned] 1 by (simp add: fails)
  have b: "after (remove_from_cart 1 5) orphaned = orphaned"
    using cart_handlers_all_or_nothing [of 1 5 doomed orphaned] 2 by (simp add: fails)
  have c: "after (view_cart 1) orphaned = orphaned"
    using cart_handlers_all_or_nothing [of 1 5 doomed orphaned] 3 by (simp add: fails)
  have d: "after (checkout 7) shop = shop"
    using cart_handlers_all_or_nothing [of 7 9 doomed shop] 4 by (simp add: fails)
  have "stored (snd (add_to_cart 1 1 doomed)) = stored doomed"
    using cart_handlers_all_or_nothing [of 1 1 doomed shop] 5 by (simp add: fails)
  then have e: "stored (snd (add_to_cart 1 1 doomed)) = shop"
    by (simp add: doomed_def)
  show ?thesis
    using a b c d e by (simp add: 1 2 3 4 5 fails)
qed

section \<open>Looking up a cart item\<close>

lemma CartItem_first_item:
  "CartItem_first d U P = Inr (Some c) \<Longrightarrow>
     c \<in> set (CartItem_table d) \<and> CartItem_user_id c = U \<and> CartItem_product_id c = P"
  by (auto simp: CartItem_first_def split: if_splits dest: find_SomeD)

lemma CartItem_first_None:
  "CartItem_first d U P = Inr None \<Longrightarrow>
     \<not> (\<exists>c\<in>set (CartItem_table d). CartItem_user_id c = U \<and> CartItem_product_id c = P)"
  by (auto simp: CartItem_first_def find_None_iff split: if_splits)

lemma CartItem_first_Inl:
  "CartItem_first d U P = Inl e \<Longrightarrow>
     e = OverflowError \<and> \<not> sqlite_integer P \<and>
     \<not> (\<exists>c\<in>set (CartItem_table d). CartItem_user_id c = U \<and> CartItem_product_id c = P)"
  by (auto simp: CartItem_first_def bindable_def stored_integers_def split: if_splits)

lemma CartItem_first_missing:
  "\<not> (\<exists>c\<in>set (CartItem_table d). CartItem_user_id c = U \<and> CartItem_product_id c = P) \<Longrightarrow>
   sqlite_integer P \<Longrightarrow> CartItem_first d U P = Inr None"
  by (auto simp: CartItem_first_def bindable_def find_None_iff)

section \<open>Frame of the cart handlers\<close>

lemma untouched_refl: "untouched V d d"
  by (simp add: untouched_def)

lemma untouched_deletes:
  assumes "distinct (map CartItem_id (CartItem_table d))"
    and "set cs \<subseteq> set (CartItem_table d)"
    and "\<forall>c\<in>set cs. CartItem_user_id c \<noteq> V"
  shows "untouched V d
    (d\<lparr>CartItem_table := filter (\<lambda>x. CartItem_id x \<notin> CartItem_id ` set cs) (CartItem_table d)\<rparr>)"
proof -
  have "CartItem_id x \<notin> CartItem_id ` set cs"
    if "x \<in> set (CartItem_table d)" "CartItem_user_id x = V" for x
  proof
    assume "CartItem_id x \<in> CartItem_id ` set cs"
    then obtain c where c: "c \<in> set cs" "CartItem_id x = CartItem_id c" by auto
    with assms(2) have "c \<in> set (CartItem_table d)" by auto
    with assms(1) that(1) c(2) have "x = c" by (blast intro: distinct_map_key)
    with c(1) assms(3) that(2) show False by simp
  qed
  then have "filter (\<lambda>c. CartItem_user_id c = V)
      (filter (\<lambda>x. CartItem_id x \<notin> CartItem_id ` set cs) (CartItem_table d)) =
    filter (\<lambda>c. CartItem_user_id c = V) (CartItem_table d)"
    by (auto simp: filter_filter intro: filter_cong)
  then show ?thesis by (simp add: untouched_def cart_of_def)
qed

text \<open>
  Claim C10. On a stored state whose ids are primary keys, a cart handler run for the user
  \<open>U\<close> leaves, for every other user \<open>V\<close>, the cart items of \<open>V\<close> as they were, and
  leaves the product table and the user table as they were; this for \<^verbatim>\<open>add_to_cart\<close>,
  \<^verbatim>\<open>remove_from_cart\<close> and \<^verbatim>\<open>checkout\<close>, whatever their outcome.
\<close>

theorem cart_handlers_touch_own_cart_only:
  assumes "primary_keys d" and "U \<noteq> V"
  shows "untouched V d (after (add_to_cart U P) d) \<and>
         untouched V d (after (remove_from_cart U P) d) \<and>
         untouched V d (after (checkout U) d)"
proof -
  from assms(1) have dist: "distinct (map CartItem_id (CartItem_table d))"
    by (simp add: primary_keys_def)
  have add: "untouched V d (after (add_to_cart U P) d)"
  proof (cases "User_query_get d U")
    case None
    then show ?thesis
      by (simp add: after_def request_add_to_cart untouched_refl split: sum.splits)
  next
    case (Some u)
    then have "User_id u = U" by (simp add: User_query_get_user)
    with Some assms(2) show ?thesis
      by (simp add: after_def request_add_to_cart untouched_def cart_of_def
          split: sum.splits option.splits)
  qed
  have rem: "untouched V d (after (remove_from_cart U P) d)"
  proof (cases "CartItem_first d U P = Inr None \<or> (\<exists>e. CartItem_first d U P = Inl e)")
    case True
    then show ?thesis by (auto simp: after_def request_remove_from_cart untouched_refl)
  next
    case False
    then obtain c where Some: "CartItem_first d U P = Inr (Some c)"
      by (cases "CartItem_first d U P") auto
    then have c: "c \<in> set (CartItem_table d)" "CartItem_user_id c = U"
      by (simp_all add: CartItem_first_item)
    with assms(2) have "untouched V d
      (d\<lparr>CartItem_table :=
         filter (\<lambda>x. CartItem_id x \<notin> CartItem_id ` set [c]) (CartItem_table d)\<rparr>)"
      by (intro untouched_deletes [OF dist]) simp_all
    with Some show ?thesis by (simp add: after_def request_remove_from_cart)
  qed
  have out: "untouched V d (after (checkout U) d)"
  proof (cases "User_query_get d U")
    case None
    then show ?thesis by (simp add: after_def request_checkout untouched_refl)
  next
    case (Some u)
    then have "User_id u = U" by (simp add: User_query_get_user)
    with assms(2) have "untouched V d
      (d\<lparr>CartItem_table :=
         filter (\<lambda>x. CartItem_id x \<notin> CartItem_id ` set (User_cart d u)) (CartItem_table d)\<rparr>)"
      by (intro untouched_deletes [OF dist]) (auto simp: User_cart_def)
    with Some show ?thesis by (simp add: after_checkout)
  qed
  from add rem out show ?thesis by simp
qed

theorem cart_handlers_touch_own_cart_only_witness:
  "primary_keys shop \<and> (1::int) \<noteq> 2 \<and>
   cart_of shop 2 = [\<lparr>CartItem_id = 2, CartItem_user_id = 2, CartItem_product_id = 1\<rparr>] \<and>
   CartItem_table (after (add_to_cart 1 1) shop) \<noteq> CartItem_table shop \<and>
   CartItem_table (after (remove_from_cart 1 1) shop) \<noteq> CartItem_table shop \<and>
   CartItem_table (after (checkout 1) shop) \<noteq> CartItem_table shop \<and>
   untouched 2 shop (after (add_to_cart 1 1) shop) \<and>
   untouched 2 shop (after (remove_from_cart 1 1) shop) \<and>
   untouched 2 shop (after (checkout 1) shop)"
proof -
  have pk: "primary_keys shop"
    by (simp add: primary_keys_def shop_def alice_def bob_def pen_def ink_def)
  have 1: "CartItem_table (after (add_to_cart 1 1) shop) \<noteq> CartItem_table shop"
    by (simp add: after_def request_add_to_cart queries examples)
  have 2: "CartItem_table (after (remove_from_cart 1 1) shop) \<noteq> CartItem_table shop"
    by (simp add: after_def request_remove_from_cart queries examples)
  have 3: "CartItem_table (after (checkout 1) shop) \<noteq> CartItem_table shop"
    by (simp add: after_def request_checkout queries examples)
  have 4: "cart_of shop 2 = [\<lparr>CartItem_id = 2, CartItem_user_id = 2, CartItem_product_id = 1\<rparr>]"
    by (simp add: cart_of_def shop_def)
  show ?thesis
    using cart_handlers_touch_own_cart_only [OF pk, of 1 2 1] by (simp add: pk 1 2 3 4)
qed

section \<open>Viewing the cart\<close>

lemma User_cart_cart_of: "User_query_get d U = Some u \<Longrightarrow> User_cart d u = cart_of d U"
  by (simp add: User_cart_def cart_of_def User_query_get_user)

lemma cart_of_stored: "set (cart_of d U) \<subseteq> set (CartItem_table d)"
  by (auto simp: cart_of_def)

lemma find_Product_None:
  "find (\<lambda>p. Product_id p = P) (Product_table d) = None \<longleftrightarrow>
     P \<notin> set (map Product_id (Product_table d))"
  by (auto simp: find_None_iff)

lemma view_cart_loop_crash:
  "set cs \<subseteq> set (CartItem_table d) \<Longrightarrow>
   \<exists>c\<in>set cs. CartItem_product_id c \<notin> set (map Product_id (Product_table d)) \<Longrightarrow>
   view_cart_loop d cs acc = Inl AttributeError"
proof (induction cs arbitrary: acc)
  case Nil
  then show ?case by simp
next
  case (Cons c cs)
  then have b: "bindable d (CartItem_product_id c)"
    by (simp add: bindable_CartItem_product_id)
  show ?case
  proof (cases "find (\<lambda>p. Product_id p = CartItem_product_id c) (Product_table d)")
    case None
    with b show ?thesis by (simp add: Product_query_get_find)
  next
    case (Some p)
    then have "CartItem_product_id c \<in> set (map Product_id (Product_table d))"
      using find_Product_None [of "CartItem_product_id c" d] by simp
    with Cons.prems have "\<exists>c\<in>set cs. CartItem_product_id c \<notin> set (map Product_id (Product_table d))"
      by auto
    with Cons.IH Cons.prems(1) Some b show ?thesis by (simp add: Product_query_get_find)
  qed
qed

lemma view_cart_loop_entries:
  "set cs \<subseteq> set (CartItem_table d) \<Longrightarrow>
   \<forall>c\<in>set cs. CartItem_product_id c \<in> set (map Product_id (Product_table d)) \<Longrightarrow>
   \<exists>es. view_cart_loop d cs acc = Inr (acc @ es) \<and> list_all2 (enriches d) cs es"
proof (induction cs arbitrary: acc)
  case Nil
  then show ?case by simp
next
  case (Cons c cs)
  then have b: "bindable d (CartItem_product_id c)"
    by (simp add: bindable_CartItem_product_id)
  from Cons.prems obtain p where
    p: "find (\<lambda>p. Product_id p = CartItem_product_id c) (Product_table d) = Some p"
    using find_Product_None [of "CartItem_product_id c" d]
    by (cases "find (\<lambda>p. Product_id p = CartItem_product_id c) (Product_table d)") auto
  let ?e = "\<lparr>entry_id = CartItem_id c, entry_user_id = CartItem_user_id c,
             entry_product_id = CartItem_product_id c, entry_product_name = Product_name p,
             entry_product_price = Product_price p\<rparr>"
  from Cons.prems have rest: "set cs \<subseteq> set (CartItem_table d)"
    "\<forall>c\<in>set cs. CartItem_product_id c \<in> set (map Product_id (Product_table d))"
    by simp_all
  from Cons.IH [OF rest, of "acc @ [?e]"] obtain es where
    es: "view_cart_loop d cs (acc @ [?e]) = Inr ((acc @ [?e]) @ es)"
      "list_all2 (enriches d) cs es" by blast
  have "enriches d c ?e" by (simp add: enriches_def p)
  with es p b have "view_cart_loop d (c # cs) acc = Inr (acc @ (?e # es)) \<and>
    list_all2 (enriches d) (c # cs) (?e # es)" by (simp add: Product_query_get_find)
  then show ?case by blast
qed

lemma view_cart_crash:
  assumes "U \<in> set (map User_id (User_table d))"
    and "\<exists>c\<in>set (cart_of d U). CartItem_product_id c \<notin> set (map Product_id (Product_table d))"
  shows "outcome (view_cart U) d = Inl AttributeError"
proof -
  from assms(1) obtain u where u: "User_query_get d U = Some u"
    using User_query_get_exists by blast
  from assms(2) have "view_cart_loop d (cart_of d U) [] = Inl AttributeError"
    by (intro view_cart_loop_crash cart_of_stored)
  with u show ?thesis
    by (simp add: outcome_def request_view_cart User_cart_cart_of)
qed

lemma view_cart_entries:
  assumes "U \<in> set (map User_id (User_table d))"
    and "\<forall>c\<in>set (cart_of d U). CartItem_product_id c \<in> set (map Product_id (Product_table d))"
  shows "\<exists>es. outcome (view_cart U) d = Inr (Cart_content es, 200) \<and>
              list_all2 (enriches d) (cart_of d U) es"
proof -
  from assms(1) obtain u where u: "User_query_get d U = Some u"
    using User_query_get_exists by blast
  from view_cart_loop_entries [OF cart_of_stored assms(2), of "[]"] obtain es where
    "view_cart_loop d (cart_of d U) [] = Inr es" "list_all2 (enriches d) (cart_of d U) es"
    by auto
  with u show ?thesis
    by (simp add: outcome_def request_view_cart User_cart_cart_of)
qed

text \<open>
  Claim C9. For a user \<open>U\<close> that resolves: when one of the cart items of \<open>U\<close> names a
  product id that no stored product has, \<^verbatim>\<open>view_cart\<close> ends in the unhandled
  \<open>AttributeError\<close>, and returns no list and no error response; when every one names a
  stored product, it succeeds. A \<^verbatim>\<open>delete_product\<close> of a product that a cart item of \<open>U\<close>
  names leads to the first case.
\<close>

theorem view_cart_total_only_without_orphans:
  assumes "U \<in> set (map User_id (User_table d))"
  shows "((\<exists>c\<in>set (cart_of d U).
             CartItem_product_id c \<notin> set (map Product_id (Product_table d))) \<longrightarrow>
            outcome (view_cart U) d = Inl AttributeError \<and> after (view_cart U) d = d) \<and>
         ((\<forall>c\<in>set (cart_of d U).
             CartItem_product_id c \<in> set (map Product_id (Product_table d))) \<longrightarrow>
            succeeded (outcome (view_cart U) d)) \<and>
         ((\<exists>c\<in>set (cart_of d U). CartItem_product_id c = P) \<longrightarrow>
            outcome (view_cart U) (after (delete_product P) d) = Inl AttributeError)"
proof -
  have st: "after (view_cart U) d = d"
    by (simp add: after_def request_view_cart split: option.splits sum.splits)
  have ok: "succeeded (outcome (view_cart U) d)"
    if "\<forall>c\<in>set (cart_of d U). CartItem_product_id c \<in> set (map Product_id (Product_table d))"
    using view_cart_entries [OF assms that] by (auto simp: succeeded_def status_def)
  have del: "outcome (view_cart U) (after (delete_product P) d) = Inl AttributeError"
    if "\<exists>c\<in>set (cart_of d U). CartItem_product_id c = P"
  proof -
    let ?d = "after (delete_product P) d"
    have tabs: "CartItem_table ?d = CartItem_table d" "User_table ?d = User_table d"
      "P \<notin> set (map Product_id (Product_table ?d))"
      by (auto simp: after_def request_delete_product
          dest: Product_query_get_Some Product_query_get_None Product_query_get_Inl
          split: option.splits sum.splits)
    from that tabs have "\<exists>c\<in>set (cart_of ?d U).
        CartItem_product_id c \<notin> set (map Product_id (Product_table ?d))"
      by (auto simp: cart_of_def)
    moreover from assms tabs have "U \<in> set (map User_id (User_table ?d))" by simp
    ultimately show ?thesis by (rule view_cart_crash [rotated])
  qed
  from st ok del view_cart_crash [OF assms] show ?thesis by blast
qed

theorem view_cart_total_only_without_orphans_witness:
  "1 \<in> set (map User_id (User_table shop)) \<and>
   (\<exists>c\<in>set (cart_of shop 1). CartItem_product_id c = 2) \<and>
   succeeded (outcome (view_cart 1) shop) \<and>
   after (delete_product 2) shop = orphaned \<and>
   outcome (view_cart 1) orphaned = Inl AttributeError \<and>
   after (view_cart 1) orphaned = orphaned"
proof -
  have u: "1 \<in> set (map User_id (User_table shop))" "1 \<in> set (map User_id (User_table orphaned))"
    by (simp_all add: orphaned_def shop_def alice_def)
  have c: "\<exists>c\<in>set (cart_of shop 1). CartItem_product_id c = 2"
    by (simp add: cart_of_def shop_def)
  have a: "\<forall>c\<in>set (cart_of shop 1). CartItem_product_id c \<in> set (map Product_id (Product_table shop))"
    by (simp add: cart_of_def shop_def pen_def ink_def)
  have o: "\<exists>c\<in>set (cart_of orphaned 1).
      CartItem_product_id c \<notin> set (map Product_id (Product_table orphaned))"
    by (simp add: cart_of_def orphaned_def shop_def pen_def)
  have d: "after (delete_product 2) shop = orphaned"
    by (simp add: after_def request_delete_product queries examples)
  have 1: "succeeded (outcome (view_cart 1) shop)"
    using view_cart_total_only_without_orphans [OF u(1), of 2] a by blast
  have 2: "outcome (view_cart 1) orphaned = Inl AttributeError \<and>
           after (view_cart 1) orphaned = orphaned"
    using view_cart_total_only_without_orphans [OF u(2), of 2] o by blast
  from u(1) c 1 d 2 show ?thesis by blast
qed

section \<open>Deleting a product\<close>

text \<open>
  Claim C8, as amended. When no stored product has the id, \<^verbatim>\<open>delete_product\<close> leaves
  the three tables as they were, and for an id within 64 bits (below \<open>2\<^sup>6\<^sup>3\<close>) it answers
  \<open>404\<close> (\<open>NotFoundError\<close>). When a stored product has the id, the handler succeeds,
  the id resolves no more, and the users and all cart items, those that name the product
  too, stay stored.
\<close>

theorem delete_product_not_found_or_removed:
  "(P \<notin> set (map Product_id (Product_table d)) \<longrightarrow> after (delete_product P) d = d) \<and>
   (P \<notin> set (map Product_id (Product_table d)) \<and> sqlite_integer P \<longrightarrow>
      NotFoundError (outcome (delete_product P) d)) \<and>
   (P \<in> set (map Product_id (Product_table d)) \<longrightarrow>
      succeeded (outcome (delete_product P) d) \<and>
      Product_table (after (delete_product P) d) =
        filter (\<lambda>p. Product_id p \<noteq> P) (Product_table d) \<and>
      P \<notin> set (map Product_id (Product_table (after (delete_product P) d))) \<and>
      CartItem_table (after (delete_product P) d) = CartItem_table d \<and>
      User_table (after (delete_product P) d) = User_table d)"
proof -
  have same: "after (delete_product P) d = d"
    if "P \<notin> set (map Product_id (Product_table d))"
    using that
    by (auto simp: after_def request_delete_product dest: Product_query_get_Some
        split: sum.splits option.splits)
  have nf: "NotFoundError (outcome (delete_product P) d)"
    if "P \<notin> set (map Product_id (Product_table d))" "sqlite_integer P"
    by (simp add: outcome_def request_delete_product Product_query_get_missing [OF that]
        NotFoundError_def status_def)
  have del: "succeeded (outcome (delete_product P) d) \<and>
      Product_table (after (delete_product P) d) =
        filter (\<lambda>p. Product_id p \<noteq> P) (Product_table d) \<and>
      P \<notin> set (map Product_id (Product_table (after (delete_product P) d))) \<and>
      CartItem_table (after (delete_product P) d) = CartItem_table d \<and>
      User_table (after (delete_product P) d) = User_table d"
    if mem: "P \<in> set (map Product_id (Product_table d))"
  proof -
    from Product_query_get_stored [OF mem] obtain p where
      p: "Product_query_get d P = Inr (Some p)" "Product_id p = P" by blast
    have aft: "after (delete_product P) d =
        d\<lparr>Product_table := filter (\<lambda>x. Product_id x \<noteq> P) (Product_table d)\<rparr>"
      using p by (simp add: after_def request_delete_product)
    have gone: "P \<notin> set (map Product_id (Product_table (after (delete_product P) d)))"
      by (auto simp: aft)
    have "succeeded (outcome (delete_product P) d)"
      using p by (simp add: outcome_def request_delete_product succeeded_def status_def)
    then show ?thesis using gone by (simp add: aft)
  qed
  from same nf del show ?thesis by blast
qed

theorem delete_product_not_found_or_removed_witness:
  "7 \<notin> set (map Product_id (Product_table shop)) \<and> sqlite_integer 7 \<and>
   NotFoundError (outcome (delete_product 7) shop) \<and> after (delete_product 7) shop = shop \<and>
   2 \<in> set (map Product_id (Product_table shop)) \<and>
   succeeded (outcome (delete_product 2) shop) \<and>
   after (delete_product 2) shop = orphaned \<and>
   CartItem_table orphaned = CartItem_table shop \<and>
   length (filter (\<lambda>c. CartItem_product_id c = 2) (CartItem_table orphaned)) = 1"
proof -
  have "after (delete_product 2) shop = orphaned"
    by (simp add: after_def request_delete_product queries examples)
  then show ?thesis
    using delete_product_not_found_or_removed [of 7 shop]
      delete_product_not_found_or_removed [of 2 shop]
    by (simp add: sqlite_integer_def examples)
qed

text \<open>
  The claim as it stands promises \<open>NotFoundError\<close> for every id that no product has.
  The route takes every string of digits, and for \<open>2\<^sup>6\<^sup>3\<close> the query raises: the request
  ends in \<^verbatim>\<open>OverflowError\<close>, not in \<open>404\<close>.
\<close>

theorem delete_product_overflow_counterexample:
  "9223372036854775808 \<notin> set (map Product_id (Product_table shop)) \<and>
   outcome (delete_product 9223372036854775808) shop = Inl OverflowError \<and>
   \<not> NotFoundError (outcome (delete_product 9223372036854775808) shop) \<and>
   after (delete_product 9223372036854775808) shop = shop"
  by (simp add: outcome_def after_def request_delete_product queries stored_integers_def
      NotFoundError_def status_def examples)

section \<open>Removing from the cart\<close>

text \<open>
  Claim C4, as amended. On a stored state whose ids are primary keys: when a cart item of
  \<open>U\<close> for \<open>P\<close> is stored, \<^verbatim>\<open>remove_from_cart\<close> succeeds and the cart items afterwards
  are those before without one such item, so that the items of \<open>U\<close> for \<open>P\<close> are one
  fewer, however many there were; when none is stored, the stored state stays as it was,
  and for a product id within 64 bits (below \<open>2\<^sup>6\<^sup>3\<close>) the handler answers \<open>400\<close>
  (\<open>InvalidOperation\<close>) and raises nothing.
\<close>

theorem remove_from_cart_one_or_none:
  assumes "primary_keys d"
  shows "((\<exists>c\<in>set (CartItem_table d). CartItem_user_id c = U \<and> CartItem_product_id c = P) \<longrightarrow>
            succeeded (outcome (remove_from_cart U P) d) \<and>
            (\<exists>c\<in>set (CartItem_table d). CartItem_user_id c = U \<and> CartItem_product_id c = P \<and>
               CartItem_table (after (remove_from_cart U P) d) = remove1 c (CartItem_table d)) \<and>
            length (filter (\<lambda>c. CartItem_user_id c = U \<and> CartItem_product_id c = P)
                      (CartItem_table (after (remove_from_cart U P) d))) + 1 =
              length (filter (\<lambda>c. CartItem_user_id c = U \<and> CartItem_product_id c = P)
                        (CartItem_table d)) \<and>
            length (CartItem_table (after (remove_from_cart U P) d)) + 1 =
              length (CartItem_table d) \<and>
            Product_table (after (remove_from_cart U P) d) = Product_table d \<and>
            User_table (after (remove_from_cart U P) d) = User_table d) \<and>
         (\<not> (\<exists>c\<in>set (CartItem_table d). CartItem_user_id c = U \<and> CartItem_product_id c = P) \<longrightarrow>
            after (remove_from_cart U P) d = d) \<and>
         (\<not> (\<exists>c\<in>set (CartItem_table d). CartItem_user_id c = U \<and> CartItem_product_id c = P) \<and>
          sqlite_integer P \<longrightarrow>
            InvalidOperation (outcome (remove_from_cart U P) d) \<and>
            \<not> crashed (outcome (remove_from_cart U P) d))"
proof (cases "\<exists>c\<in>set (CartItem_table d). CartItem_user_id c = U \<and> CartItem_product_id c = P")
  case False
  have same: "after (remove_from_cart U P) d = d"
    using False
    by (auto simp: after_def request_remove_from_cart dest: CartItem_first_item
        split: sum.splits option.splits)
  have "InvalidOperation (outcome (remove_from_cart U P) d) \<and>
        \<not> crashed (outcome (remove_from_cart U P) d)" if "sqlite_integer P"
    by (simp add: outcome_def request_remove_from_cart CartItem_first_missing [OF False that]
        InvalidOperation_def status_def crashed_def)
  with False same show ?thesis by blast
next
  case True
  then obtain c0 where c0: "c0 \<in> set (CartItem_table d)" "CartItem_product_id c0 = P" by blast
  then have "bindable d P" using bindable_CartItem_product_id by blast
  moreover from True have
    "find (\<lambda>c. CartItem_user_id c = U \<and> CartItem_product_id c = P) (CartItem_table d) \<noteq> None"
    by (auto simp: find_None_iff)
  ultimately obtain c where Some: "CartItem_first d U P = Inr (Some c)"
    by (auto simp: CartItem_first_def)
  then have c: "c \<in> set (CartItem_table d)" "CartItem_user_id c = U" "CartItem_product_id c = P"
    by (simp_all add: CartItem_first_item)
  from assms have dist: "distinct (map CartItem_id (CartItem_table d))"
    by (simp add: primary_keys_def)
  have aft: "after (remove_from_cart U P) d =
      d\<lparr>CartItem_table := remove1 c (CartItem_table d)\<rparr>"
    using Some filter_key_remove1 [OF dist c(1)] by (simp add: after_def request_remove_from_cart)
  have ok: "succeeded (outcome (remove_from_cart U P) d)"
    using Some by (simp add: outcome_def request_remove_from_cart succeeded_def status_def)
  have n1: "length (filter (\<lambda>c. CartItem_user_id c = U \<and> CartItem_product_id c = P)
                      (remove1 c (CartItem_table d))) + 1 =
              length (filter (\<lambda>c. CartItem_user_id c = U \<and> CartItem_product_id c = P)
                        (CartItem_table d))"
    using c by (intro length_filter_remove1) simp_all
  have n2: "length (remove1 c (CartItem_table d)) + 1 = length (CartItem_table d)"
    using c(1) length_filter_remove1 [of c "CartItem_table d" "\<lambda>x. True"] by simp
  from c ok n1 n2 True show ?thesis by (auto simp: aft)
qed

theorem remove_from_cart_one_or_none_witness:
  "primary_keys shop \<and>
   length (filter (\<lambda>c. CartItem_user_id c = 1 \<and> CartItem_product_id c = 1)
             (CartItem_table shop)) = 2 \<and>
   succeeded (outcome (remove_from_cart 1 1) shop) \<and>
   length (filter (\<lambda>c. CartItem_user_id c = 1 \<and> CartItem_product_id c = 1)
             (CartItem_table (after (remove_from_cart 1 1) shop))) + 1 = 2 \<and>
   \<not> (\<exists>c\<in>set (CartItem_table shop). CartItem_user_id c = 2 \<and> CartItem_product_id c = 2) \<and>
   sqlite_integer 2 \<and>
   InvalidOperation (outcome (remove_from_cart 2 2) shop) \<and>
   \<not> crashed (outcome (remove_from_cart 2 2) shop) \<and>
   after (remove_from_cart 2 2) shop = shop"
proof -
  have pk: "primary_keys shop"
    by (simp add: primary_keys_def examples)
  show ?thesis
    using remove_from_cart_one_or_none [OF pk, of 1 1]
      remove_from_cart_one_or_none [OF pk, of 2 2]
    by (simp add: pk sqlite_integer_def) (simp add: shop_def)
qed

text \<open>
  The claim as it stands promises \<open>InvalidOperation\<close> and no crash whenever no cart item
  matches. For the product id \<open>2\<^sup>6\<^sup>3\<close>, which the route takes, the query raises and the
  request ends in \<^verbatim>\<open>OverflowError\<close>.
\<close>

theorem remove_from_cart_overflow_counterexample:
  "\<not> (\<exists>c\<in>set (CartItem_table shop).
        CartItem_user_id c = 1 \<and> CartItem_product_id c = 9223372036854775808) \<and>
   outcome (remove_from_cart 1 9223372036854775808) shop = Inl OverflowError \<and>
   crashed (outcome (remove_from_cart 1 9223372036854775808) shop) \<and>
   \<not> InvalidOperation (outcome (remove_from_cart 1 9223372036854775808) shop) \<and>
   after (remove_from_cart 1 9223372036854775808) shop = shop"
  by (simp add: outcome_def after_def request_remove_from_cart queries stored_integers_def
      InvalidOperation_def status_def crashed_def examples)

section \<open>Prices are read when the cart is viewed\<close>

lemma Float_column_exact: "exact_float v = Some x \<Longrightarrow> Float_column lib v = Inr (Some x)"
  by (cases v) (auto simp: exact_float_def nan_is_null_def split: if_splits)

lemma update_product_succeeded:
  assumes "succeeded (outcome (update_product lib P data) d)"
  shows "P \<in> set (map Product_id (Product_table d)) \<and>
         map_option (Float_column lib) (data ''price'') \<noteq> Some (Inr None) \<and>
         after (update_product lib P data) d =
           d\<lparr>Product_table :=
             map (\<lambda>p. if Product_id p = P
                       then updated (map_option (String_column lib) (data ''name''))
                              (map_option (Float_column lib) (data ''price''))
                              (map_option (String_column lib) (data ''description'')) p
                       else p)
               (Product_table d)\<rparr>"
proof (cases "Product_query_get d P")
  case (Inl e)
  with assms show ?thesis
    by (simp add: outcome_def request_def update_product_def succeeded_def status_def)
next
  case (Inr found)
  show ?thesis
  proof (cases found)
    case None
    with Inr assms show ?thesis
      by (simp add: outcome_def request_def update_product_def succeeded_def status_def)
  next
    case (Some p)
    with Inr have P: "Product_id p = P" "p \<in> set (Product_table d)"
      by (simp_all add: Product_query_get_Some)
    let ?w = "Dirty_Product P (map_option (String_column lib) (data ''name''))
                (map_option (Float_column lib) (data ''price''))
                (map_option (String_column lib) (data ''description''))"
    have req: "request (update_product lib P data) d =
        (case execute ?w d of Inl e \<Rightarrow> (Inl e, d)
         | Inr d' \<Rightarrow> (Inr (Message msg_product_updated, 200), d'))"
      using Inr Some P
      by (simp add: request_def update_product_def commit_return_def commit_def session_add_def
          split: sum.splits)
    from assms obtain d' where ex: "execute ?w d = Inr d'"
      by (cases "execute ?w d") (simp_all add: req outcome_def succeeded_def status_def)
    then have "map_option (Float_column lib) (data ''price'') \<noteq> Some (Inr None) \<and>
      d' = d\<lparr>Product_table :=
             map (\<lambda>p. if Product_id p = P
                       then updated (map_option (String_column lib) (data ''name''))
                              (map_option (Float_column lib) (data ''price''))
                              (map_option (String_column lib) (data ''description'')) p
                       else p)
               (Product_table d)\<rparr>"
      by (auto split: option.splits if_splits)
    with ex P show ?thesis by (auto simp: after_def req)
  qed
qed

lemma updated_id: "Product_id (updated n p dsc q) = Product_id q"
  by (simp add: updated_def)

lemma updated_price: "Product_price (updated n (Some (Inr (Some x))) dsc q) = x"
  by (simp add: updated_def)

lemma find_Product_updated:
  "find (\<lambda>p. Product_id p = k)
     (map (\<lambda>p. if Product_id p = P then updated n pr dsc p else p) ps) =
   map_option (\<lambda>p. if Product_id p = P then updated n pr dsc p else p)
     (find (\<lambda>p. Product_id p = k) ps)"
  by (rule find_map_same) (simp add: updated_id)

text \<open>
  Claim C5, as amended. For a user \<open>U\<close> that resolves and whose cart items all name stored
  products, \<^verbatim>\<open>view_cart\<close> returns one entry for each cart item of \<open>U\<close>, in their order,
  with the name and the price the named product has in the state that is read. So after
  an \<^verbatim>\<open>update_product\<close> that succeeds and sets the price of \<open>P\<close> to a number that the
  column keeps as it is, every entry for \<open>P\<close> shows that number, whatever the price was
  when the item was added.
\<close>

theorem view_cart_shows_current_catalog:
  assumes "U \<in> set (map User_id (User_table d))"
    and "\<forall>c\<in>set (cart_of d U). CartItem_product_id c \<in> set (map Product_id (Product_table d))"
  shows "(\<exists>es. outcome (view_cart U) d = Inr (Cart_content es, 200) \<and>
               list_all2 (enriches d) (cart_of d U) es) \<and>
         (succeeded (outcome (update_product lib P data) d) \<longrightarrow>
          data ''price'' = Some v \<longrightarrow> exact_float v = Some x \<longrightarrow>
            (\<exists>es. outcome (view_cart U) (after (update_product lib P data) d) =
                     Inr (Cart_content es, 200) \<and>
                   list_all2 (enriches (after (update_product lib P data) d)) (cart_of d U) es \<and>
                   (\<forall>e\<in>set es. entry_product_id e = P \<longrightarrow> entry_product_price e = x)))"
proof -
  have later: "\<exists>es. outcome (view_cart U) (after (update_product lib P data) d) =
                     Inr (Cart_content es, 200) \<and>
                   list_all2 (enriches (after (update_product lib P data) d)) (cart_of d U) es \<and>
                   (\<forall>e\<in>set es. entry_product_id e = P \<longrightarrow> entry_product_price e = x)"
    if ok: "succeeded (outcome (update_product lib P data) d)"
      and v: "data ''price'' = Some v" and x: "exact_float v = Some x"
  proof -
    let ?d = "after (update_product lib P data) d"
    let ?n = "map_option (String_column lib) (data ''name'')"
    let ?dsc = "map_option (String_column lib) (data ''description'')"
    from v x have pr: "map_option (Float_column lib) (data ''price'') = Some (Inr (Some x))"
      by (simp add: Float_column_exact)
    from update_product_succeeded [OF ok] have
      d': "?d = d\<lparr>Product_table :=
             map (\<lambda>p. if Product_id p = P then updated ?n (Some (Inr (Some x))) ?dsc p else p)
               (Product_table d)\<rparr>"
      by (simp add: pr)
    have "Product_id \<circ> (\<lambda>p. if Product_id p = P then updated ?n (Some (Inr (Some x))) ?dsc p else p)
        = Product_id"
      by (auto simp: fun_eq_iff updated_id)
    then have ids: "map Product_id (Product_table ?d) = map Product_id (Product_table d)"
      by (simp add: d')
    have cart: "cart_of ?d U = cart_of d U" by (simp add: d' cart_of_def)
    have users: "User_table ?d = User_table d" by (simp add: d')
    from assms users ids cart view_cart_entries [of U ?d] obtain es where
      es: "outcome (view_cart U) ?d = Inr (Cart_content es, 200)"
        "list_all2 (enriches ?d) (cart_of d U) es" by auto
    have "entry_product_price e = x" if e: "e \<in> set es" "entry_product_id e = P" for e
    proof -
      from list_all2_right [OF es(2) e(1)] obtain c where c: "enriches ?d c e" by blast
      with e(2) have "CartItem_product_id c = P" by (simp add: enriches_def)
      with c show ?thesis
        by (auto simp: enriches_def d' find_Product_updated updated_price
            dest: find_SomeD split: option.splits)
    qed
    with es show ?thesis by blast
  qed
  from view_cart_entries [OF assms] later show ?thesis by blast
qed

theorem view_cart_shows_current_catalog_witness:
  "\<forall>lib.
     1 \<in> set (map User_id (User_table shop)) \<and>
     map CartItem_product_id (cart_of shop 1) = [1, 2, 1] \<and>
     map Product_id (Product_table shop) = [1, 2] \<and>
     Product_price pen = Finite (3 / 2) \<and>
     exact_float (JFloat (Finite 2)) = Some (Finite 2) \<and>
     succeeded (outcome (update_product lib 1 [''price'' \<mapsto> JFloat (Finite 2)]) shop) \<and>
     (\<exists>es. outcome (view_cart 1) shop = Inr (Cart_content es, 200) \<and>
           list_all2 (enriches shop) (cart_of shop 1) es) \<and>
     (\<exists>es. outcome (view_cart 1)
               (after (update_product lib 1 [''price'' \<mapsto> JFloat (Finite 2)]) shop) =
             Inr (Cart_content es, 200) \<and>
           list_all2
             (enriches (after (update_product lib 1 [''price'' \<mapsto> JFloat (Finite 2)]) shop))
             (cart_of shop 1) es \<and>
           (\<forall>e\<in>set es. entry_product_id e = 1 \<longrightarrow> entry_product_price e = Finite 2))"
proof
  fix lib
  have u: "1 \<in> set (map User_id (User_table shop))"
    by (simp add: examples)
  have c: "map CartItem_product_id (cart_of shop 1) = [1, 2, 1]"
    by (simp add: cart_of_def shop_def)
  have p: "map Product_id (Product_table shop) = [1, 2]"
    by (simp add: examples)
  have a: "\<forall>c\<in>set (cart_of shop 1).
      CartItem_product_id c \<in> set (map Product_id (Product_table shop))"
    by (simp add: cart_of_def examples)
  have ok: "succeeded (outcome (update_product lib 1 [''price'' \<mapsto> JFloat (Finite 2)]) shop)"
    by (simp add: outcome_def request_def update_product_def commit_return_def commit_def
        session_add_def refused_def or_unset_def nan_is_null_def succeeded_def status_def
        queries examples)
  have pr: "Product_price pen = Finite (3 / 2)" by (simp add: pen_def)
  have dt: "[''price'' \<mapsto> JFloat (Finite 2)] ''price'' = Some (JFloat (Finite 2))" by simp
  have ex: "exact_float (JFloat (Finite 2)) = Some (Finite 2)" by (simp add: exact_float_def)
  from view_cart_shows_current_catalog
    [OF u a, of lib 1 "[''price'' \<mapsto> JFloat (Finite 2)]" "JFloat (Finite 2)" "Finite 2"]
    ok u c p pr dt ex
  show "1 \<in> set (map User_id (User_table shop)) \<and>
     map CartItem_product_id (cart_of shop 1) = [1, 2, 1] \<and>
     map Product_id (Product_table shop) = [1, 2] \<and>
     Product_price pen = Finite (3 / 2) \<and>
     exact_float (JFloat (Finite 2)) = Some (Finite 2) \<and>
     succeeded (outcome (update_product lib 1 [''price'' \<mapsto> JFloat (Finite 2)]) shop) \<and>
     (\<exists>es. outcome (view_cart 1) shop = Inr (Cart_content es, 200) \<and>
           list_all2 (enriches shop) (cart_of shop 1) es) \<and>
     (\<exists>es. outcome (view_cart 1)
               (after (update_product lib 1 [''price'' \<mapsto> JFloat (Finite 2)]) shop) =
             Inr (Cart_content es, 200) \<and>
           list_all2
             (enriches (after (update_product lib 1 [''price'' \<mapsto> JFloat (Finite 2)]) shop))
             (cart_of shop 1) es \<and>
           (\<forall>e\<in>set es. entry_product_id e = 1 \<longrightarrow> entry_product_price e = Finite 2))"
    by blast
qed

text \<open>
  The claim as it stands asks this of every user. In the shop without its ink, Alice
  resolves and has three cart items, and \<^verbatim>\<open>view_cart\<close> returns no entry at all.
\<close>

theorem view_cart_every_user_counterexample:
  "orphaned = after (delete_product 2) shop \<and>
   1 \<in> set (map User_id (User_table orphaned)) \<and>
   length (cart_of orphaned 1) = 3 \<and>
   outcome (view_cart 1) orphaned = Inl AttributeError"
  by (simp add: outcome_def after_def request_view_cart request_delete_product
      queries stored_integers_def examples)

text \<open>
  The scenario of the specification on the example shop: the pen costs \<open>3/2\<close> while
  Alice adds it, is then set to \<open>2\<close>, and her cart shows \<open>2\<close> for both of her pens.
\<close>

lemma pen_price_scenario:
  "outcome (view_cart 1) (after (update_product lib 1 [''price'' \<mapsto> JFloat (Finite 2)]) shop) =
     Inr (Cart_content
       [\<lparr>entry_id = 1, entry_user_id = 1, entry_product_id = 1,
          entry_product_name = ''Pen'', entry_product_price = Finite 2\<rparr>,
        \<lparr>entry_id = 3, entry_user_id = 1, entry_product_id = 2,
          entry_product_name = ''Ink'', entry_product_price = Finite 4\<rparr>,
        \<lparr>entry_id = 4, entry_user_id = 1, entry_product_id = 1,
          entry_product_name = ''Pen'', entry_product_price = Finite 2\<rparr>], 200)"
proof -
  have "after (update_product lib 1 [''price'' \<mapsto> JFloat (Finite 2)]) shop =
      shop\<lparr>Product_table := [pen\<lparr>Product_price := Finite 2\<rparr>, ink]\<rparr>"
    by (simp add: after_def request_def update_product_def commit_return_def commit_def
        session_add_def refused_def or_unset_def nan_is_null_def updated_def queries examples)
  then show ?thesis
    by (simp add: outcome_def request_view_cart queries stored_integers_def examples)
qed

section \<open>Adding to the cart\<close>

lemma entries_for_enriches:
  "list_all2 (enriches d) cs es \<Longrightarrow> entries_for P es = items_for P cs"
  unfolding entries_for_def items_for_def
  by (induction rule: list_all2_induct) (simp_all add: enriches_def)

lemma add_to_cart_resolved:
  assumes "U \<in> set (map User_id (User_table d))"
    and "P \<in> set (map Product_id (Product_table d))"
  shows "request (add_to_cart U P) d =
    (Inr (Message msg_cart_added, 200),
     d\<lparr>CartItem_table := CartItem_table d @
       [\<lparr>CartItem_id = next_id (map CartItem_id (CartItem_table d)),
         CartItem_user_id = U, CartItem_product_id = P\<rparr>]\<rparr>)"
proof -
  from assms(1) obtain u where u: "User_query_get d U = Some u"
    using User_query_get_exists by blast
  from Product_query_get_stored [OF assms(2)] obtain p where
    p: "Product_query_get d P = Inr (Some p)" "Product_id p = P" by blast
  from u p show ?thesis
    by (simp add: request_add_to_cart User_query_get_user)
qed

lemma add_to_cart_unresolved:
  assumes "U \<notin> set (map User_id (User_table d)) \<or> P \<notin> set (map Product_id (Product_table d))"
  shows "after (add_to_cart U P) d = d"
    and "sqlite_integer P \<Longrightarrow>
      request (add_to_cart U P) d = (Inr (Message msg_cart_add_failed, 400), d)"
proof -
  from assms have none:
    "User_query_get d U = None \<or> (\<forall>p. Product_query_get d P \<noteq> Inr (Some p))"
    using Product_query_get_Some [of d P] by (auto simp: User_query_get_None)
  then show "after (add_to_cart U P) d = d"
    by (cases "Product_query_get d P")
      (auto simp: after_def request_add_to_cart split: option.splits)
  assume "sqlite_integer P"
  then obtain found where "Product_query_get d P = Inr found"
    by (simp add: Product_query_get_def bindable_sqlite_integer)
  with none show "request (add_to_cart U P) d = (Inr (Message msg_cart_add_failed, 400), d)"
    by (auto simp: request_add_to_cart split: option.splits)
qed

lemma view_cart_after_add_to_cart:
  assumes "U \<in> set (map User_id (User_table d))"
    and "P \<in> set (map Product_id (Product_table d))"
    and "\<forall>c\<in>set (cart_of d U). CartItem_product_id c \<in> set (map Product_id (Product_table d))"
  shows "\<exists>es. outcome (view_cart U) (after (add_to_cart U P) d) = Inr (Cart_content es, 200) \<and>
              entries_for P es = items_for P (cart_of d U) + 1"
    and "items_for P (cart_of (after (add_to_cart U P) d) U) = items_for P (cart_of d U) + 1"
    and "U \<in> set (map User_id (User_table (after (add_to_cart U P) d)))"
    and "P \<in> set (map Product_id (Product_table (after (add_to_cart U P) d)))"
    and "\<forall>c\<in>set (cart_of (after (add_to_cart U P) d) U).
           CartItem_product_id c \<in> set (map Product_id (Product_table (after (add_to_cart U P) d)))"
proof -
  let ?d = "after (add_to_cart U P) d"
  let ?new = "\<lparr>CartItem_id = next_id (map CartItem_id (CartItem_table d)),
               CartItem_user_id = U, CartItem_product_id = P\<rparr>"
  have d': "?d = d\<lparr>CartItem_table := CartItem_table d @ [?new]\<rparr>"
    by (simp add: after_def add_to_cart_resolved [OF assms(1,2)])
  have cart: "cart_of ?d U = cart_of d U @ [?new]"
    by (simp add: d' cart_of_def)
  have prods: "Product_table ?d = Product_table d" by (simp add: d')
  show n: "items_for P (cart_of ?d U) = items_for P (cart_of d U) + 1"
    by (simp add: cart items_for_def)
  show u: "U \<in> set (map User_id (User_table ?d))" using assms(1) by (simp add: d')
  show p: "P \<in> set (map Product_id (Product_table ?d))" using assms(2) by (simp add: d')
  show a: "\<forall>c\<in>set (cart_of ?d U).
      CartItem_product_id c \<in> set (map Product_id (Product_table ?d))"
    using assms(2,3) by (simp add: cart prods)
  from view_cart_entries [OF u a] obtain es where
    es: "outcome (view_cart U) ?d = Inr (Cart_content es, 200)"
      "list_all2 (enriches ?d) (cart_of ?d U) es" by blast
  from es(2) have "entries_for P es = items_for P (cart_of ?d U)"
    by (rule entries_for_enriches)
  with es(1) n show "\<exists>es. outcome (view_cart U) ?d = Inr (Cart_content es, 200) \<and>
              entries_for P es = items_for P (cart_of d U) + 1" by auto
qed

text \<open>
  Claim C3, as amended. When the user id or the product id does not resolve,
  \<^verbatim>\<open>add_to_cart\<close> leaves the stored state as it was, and for a product id within 64 bits
  it answers \<open>400\<close> (\<open>InvalidOperation\<close>). When both resolve, it succeeds and the cart items
  afterwards are those before and one new item of \<open>U\<close> for \<open>P\<close>, with a fresh id; products
  and users are as before. When moreover every cart item of \<open>U\<close> names a stored product,
  the \<^verbatim>\<open>view_cart\<close> that follows returns one entry for \<open>P\<close> more than \<open>U\<close> had items for
  \<open>P\<close>, and after two calls two more: exactly one and exactly two from a cart with none.
\<close>

theorem add_to_cart_one_new_item:
  "((U \<notin> set (map User_id (User_table d)) \<or> P \<notin> set (map Product_id (Product_table d))) \<longrightarrow>
      after (add_to_cart U P) d = d) \<and>
   ((U \<notin> set (map User_id (User_table d)) \<or> P \<notin> set (map Product_id (Product_table d))) \<and>
    sqlite_integer P \<longrightarrow>
      InvalidOperation (outcome (add_to_cart U P) d)) \<and>
   (U \<in> set (map User_id (User_table d)) \<and> P \<in> set (map Product_id (Product_table d)) \<longrightarrow>
      succeeded (outcome (add_to_cart U P) d) \<and>
      CartItem_table (after (add_to_cart U P) d) =
        CartItem_table d @
          [\<lparr>CartItem_id = next_id (map CartItem_id (CartItem_table d)),
            CartItem_user_id = U, CartItem_product_id = P\<rparr>] \<and>
      next_id (map CartItem_id (CartItem_table d)) \<notin> set (map CartItem_id (CartItem_table d)) \<and>
      Product_table (after (add_to_cart U P) d) = Product_table d \<and>
      User_table (after (add_to_cart U P) d) = User_table d \<and>
      ((\<forall>c\<in>set (cart_of d U).
          CartItem_product_id c \<in> set (map Product_id (Product_table d))) \<longrightarrow>
         (\<exists>es. outcome (view_cart U) (after (add_to_cart U P) d) = Inr (Cart_content es, 200) \<and>
               entries_for P es = items_for P (cart_of d U) + 1) \<and>
         (\<exists>es. outcome (view_cart U) (after (add_to_cart U P) (after (add_to_cart U P) d)) =
                 Inr (Cart_content es, 200) \<and>
               entries_for P es = items_for P (cart_of d U) + 2)))"
proof -
  have same: "after (add_to_cart U P) d = d"
    if "U \<notin> set (map User_id (User_table d)) \<or> P \<notin> set (map Product_id (Product_table d))"
    using that by (rule add_to_cart_unresolved(1))
  have fail: "InvalidOperation (outcome (add_to_cart U P) d)"
    if "U \<notin> set (map User_id (User_table d)) \<or> P \<notin> set (map Product_id (Product_table d))"
      "sqlite_integer P"
    by (simp add: outcome_def add_to_cart_unresolved(2) [OF that] InvalidOperation_def
        status_def)
  have ok: "succeeded (outcome (add_to_cart U P) d) \<and>
      CartItem_table (after (add_to_cart U P) d) =
        CartItem_table d @
          [\<lparr>CartItem_id = next_id (map CartItem_id (CartItem_table d)),
            CartItem_user_id = U, CartItem_product_id = P\<rparr>] \<and>
      Product_table (after (add_to_cart U P) d) = Product_table d \<and>
      User_table (after (add_to_cart U P) d) = User_table d"
    if "U \<in> set (map User_id (User_table d))" "P \<in> set (map Product_id (Product_table d))"
    by (simp add: outcome_def after_def add_to_cart_resolved [OF that] succeeded_def status_def)
  have view: "(\<exists>es. outcome (view_cart U) (after (add_to_cart U P) d) = Inr (Cart_content es, 200) \<and>
               entries_for P es = items_for P (cart_of d U) + 1) \<and>
         (\<exists>es. outcome (view_cart U) (after (add_to_cart U P) (after (add_to_cart U P) d)) =
                 Inr (Cart_content es, 200) \<and>
               entries_for P es = items_for P (cart_of d U) + 2)"
    if h: "U \<in> set (map User_id (User_table d))" "P \<in> set (map Product_id (Product_table d))"
      "\<forall>c\<in>set (cart_of d U). CartItem_product_id c \<in> set (map Product_id (Product_table d))"
  proof -
    note once = view_cart_after_add_to_cart [OF h]
    from view_cart_after_add_to_cart(1) [OF once(3,4,5)] once(2)
    have "\<exists>es. outcome (view_cart U) (after (add_to_cart U P) (after (add_to_cart U P) d)) =
                 Inr (Cart_content es, 200) \<and>
               entries_for P es = items_for P (cart_of d U) + 2" by auto
    with once(1) show ?thesis by blast
  qed
  from same fail ok view next_id_fresh [of "map CartItem_id (CartItem_table d)"] show ?thesis
    by blast
qed

theorem add_to_cart_one_new_item_witness:
  "7 \<notin> set (map User_id (User_table shop)) \<and> sqlite_integer 1 \<and>
   InvalidOperation (outcome (add_to_cart 7 1) shop) \<and> after (add_to_cart 7 1) shop = shop \<and>
   9 \<notin> set (map Product_id (Product_table shop)) \<and> sqlite_integer 9 \<and>
   InvalidOperation (outcome (add_to_cart 1 9) shop) \<and> after (add_to_cart 1 9) shop = shop \<and>
   2 \<in> set (map User_id (User_table shop)) \<and>
   2 \<in> set (map Product_id (Product_table shop)) \<and>
   map CartItem_product_id (cart_of shop 2) = [1] \<and>
   succeeded (outcome (add_to_cart 2 2) shop) \<and>
   CartItem_table (after (add_to_cart 2 2) shop) =
     CartItem_table shop @ [\<lparr>CartItem_id = 5, CartItem_user_id = 2, CartItem_product_id = 2\<rparr>] \<and>
   (\<exists>es. outcome (view_cart 2) (after (add_to_cart 2 2) shop) = Inr (Cart_content es, 200) \<and>
         entries_for 2 es = 1) \<and>
   (\<exists>es. outcome (view_cart 2) (after (add_to_cart 2 2) (after (add_to_cart 2 2) shop)) =
           Inr (Cart_content es, 200) \<and>
         entries_for 2 es = 2)"
proof -
  have u7: "7 \<notin> set (map User_id (User_table shop))"
    and p9: "9 \<notin> set (map Product_id (Product_table shop))"
    and u2: "2 \<in> set (map User_id (User_table shop))"
    and p2: "2 \<in> set (map Product_id (Product_table shop))"
    by (simp_all add: examples)
  have i1: "sqlite_integer 1" and i9: "sqlite_integer 9"
    by (simp_all add: sqlite_integer_def)
  have cart: "map CartItem_product_id (cart_of shop 2) = [1]"
    by (simp add: cart_of_def shop_def)
  have none: "items_for 2 (cart_of shop 2) = 0"
    by (simp add: items_for_def cart_of_def shop_def)
  have a: "\<forall>c\<in>set (cart_of shop 2).
      CartItem_product_id c \<in> set (map Product_id (Product_table shop))"
    by (simp add: cart_of_def examples)
  have key: "next_id (map CartItem_id (CartItem_table shop)) = 5"
    by (simp add: next_id_def shop_def)
  have f1: "InvalidOperation (outcome (add_to_cart 7 1) shop) \<and> after (add_to_cart 7 1) shop = shop"
    using add_to_cart_one_new_item [of 7 shop 1] u7 i1 by blast
  have f2: "InvalidOperation (outcome (add_to_cart 1 9) shop) \<and> after (add_to_cart 1 9) shop = shop"
    using add_to_cart_one_new_item [of 1 shop 9] p9 i9 by blast
  have ok: "succeeded (outcome (add_to_cart 2 2) shop) \<and>
    CartItem_table (after (add_to_cart 2 2) shop) =
      CartItem_table shop @ [\<lparr>CartItem_id = 5, CartItem_user_id = 2, CartItem_product_id = 2\<rparr>] \<and>
    (\<exists>es. outcome (view_cart 2) (after (add_to_cart 2 2) shop) = Inr (Cart_content es, 200) \<and>
         entries_for 2 es = 1) \<and>
    (\<exists>es. outcome (view_cart 2) (after (add_to_cart 2 2) (after (add_to_cart 2 2) shop)) =
           Inr (Cart_content es, 200) \<and>
         entries_for 2 es = 2)"
    using add_to_cart_one_new_item [of 2 shop 2] u2 p2 a unfolding key none add_0 by blast
  from u7 p9 u2 p2 i1 i9 cart f1 f2 ok show ?thesis by blast
qed

text \<open>
  The claim as it stands fails on both sides. In the kiosk, reached from its start by
  two requests that succeed, Alice and the pen resolve and she has no pen; she adds one
  with success, and the \<^verbatim>\<open>view_cart\<close> that follows returns no entries at all, because
  her cart holds the deleted ink. In the shop, the product id \<open>2\<^sup>6\<^sup>3\<close>, which the route
  accepts, resolves to no product, and the request ends in the \<^verbatim>\<open>OverflowError\<close> of the
  lookup, not in the answer \<open>400\<close>.
\<close>

theorem add_to_cart_exactly_one_counterexample:
  "after (delete_product 2) (after (add_to_cart 1 2) kiosk_start) = kiosk \<and>
   1 \<in> set (map User_id (User_table kiosk)) \<and>
   1 \<in> set (map Product_id (Product_table kiosk)) \<and>
   items_for 1 (cart_of kiosk 1) = 0 \<and>
   succeeded (outcome (add_to_cart 1 1) kiosk) \<and>
   outcome (view_cart 1) (after (add_to_cart 1 1) kiosk) = Inl AttributeError \<and>
   9223372036854775808 \<notin> set (map Product_id (Product_table shop)) \<and>
   outcome (add_to_cart 1 9223372036854775808) shop = Inl OverflowError \<and>
   \<not> InvalidOperation (outcome (add_to_cart 1 9223372036854775808) shop)"
proof -
  have reach: "after (delete_product 2) (after (add_to_cart 1 2) kiosk_start) = kiosk"
    by (simp add: after_def request_add_to_cart request_delete_product queries
        next_id_def kiosk_start_def kiosk_def examples)
  have alice_adds: "request (add_to_cart 1 1) kiosk =
      (Inr (Message msg_cart_added, 200),
       kiosk\<lparr>CartItem_table := CartItem_table kiosk @
        [\<lparr>CartItem_id = 2, CartItem_user_id = 1, CartItem_product_id = 1\<rparr>]\<rparr>)"
    by (simp add: request_add_to_cart queries next_id_def kiosk_def examples)
  have alice_views: "outcome (view_cart 1) (after (add_to_cart 1 1) kiosk) = Inl AttributeError"
    unfolding after_def alice_adds
    by (simp add: outcome_def request_view_cart queries stored_integers_def kiosk_def examples)
  have rest: "1 \<in> set (map User_id (User_table kiosk))"
    "1 \<in> set (map Product_id (Product_table kiosk))"
    "items_for 1 (cart_of kiosk 1) = 0"
    "9223372036854775808 \<notin> set (map Product_id (Product_table shop))"
    by (simp_all add: items_for_def cart_of_def kiosk_def examples)
  have alice_ok: "succeeded (outcome (add_to_cart 1 1) kiosk)"
    by (simp add: outcome_def alice_adds succeeded_def status_def)
  have big: "outcome (add_to_cart 1 9223372036854775808) shop = Inl OverflowError"
    by (simp add: outcome_def request_add_to_cart queries stored_integers_def examples)
  then have "\<not> InvalidOperation (outcome (add_to_cart 1 9223372036854775808) shop)"
    by (simp add: InvalidOperation_def status_def)
  with reach alice_views rest alice_ok big show ?thesis by blast
qed

section \<open>Login\<close>





section \<open>Adding a product\<close>







section \<open>The schema is kept\<close>

text \<open>
  The assumptions made of a stored state above (primary keys, unique usernames) hold of
  every state the handlers reach from a state of which they hold.
\<close>

lemma schema_execute:
  assumes "schema d" and "execute w d = Inr d'"
  shows "schema d'"
proof (cases w)
  case (Add_Product n p dsc)
  with assms show ?thesis
    using next_id_fresh [of "map Product_id (Product_table d)"]
    by (auto simp: schema_def primary_keys_def unique_usernames_def
        split: if_splits option.splits sum.splits)
next
  case (Add_CartItem uid pid)
  with assms show ?thesis
    using next_id_fresh [of "map CartItem_id (CartItem_table d)"]
    by (auto simp: schema_def primary_keys_def unique_usernames_def)
next
  case (Delete_Product pk)
  with assms show ?thesis
    by (auto simp: schema_def primary_keys_def unique_usernames_def distinct_map_filter)
next
  case (Delete_CartItem pk)
  with assms show ?thesis
    by (auto simp: schema_def primary_keys_def unique_usernames_def distinct_map_filter)
next
  case (Dirty_Product pk n p dsc)
  have same: "Product_id \<circ> (\<lambda>q. if Product_id q = pk then updated n p dsc q else q) = Product_id"
    by (auto simp: fun_eq_iff updated_id)
  from Dirty_Product assms show ?thesis
    by (auto simp: schema_def primary_keys_def unique_usernames_def same
        split: if_splits option.splits)
qed

lemma schema_flush: "schema d \<Longrightarrow> flush ws d = Inr d' \<Longrightarrow> schema d'"
proof (induction ws arbitrary: d)
  case Nil
  then show ?case by simp
next
  case (Cons w ws)
  then show ?case
    by (cases "execute w d") (auto dest: schema_execute)
qed

lemma schema_commit_return:
  "schema (stored s) \<Longrightarrow> schema (stored (snd (commit_return r s)))"
  by (auto simp: commit_return_def commit_def split: sum.splits dest: schema_flush)

lemma schema_request:
  assumes "\<And>s. schema (stored s) \<Longrightarrow> schema (stored (snd (h s)))" and "schema d"
  shows "schema (after h d)"
  using assms(1) [of "\<lparr>stored = d, pending = []\<rparr>"] assms(2)
  by (cases "h \<lparr>stored = d, pending = []\<rparr>") (simp add: after_def request_def)

lemma schema_kept:
  assumes "schema d"
  shows "schema (after (add_product lib data) d)"
    and "schema (after (delete_product P) d)"
    and "schema (after (update_product lib P data) d)"
    and "schema (after (add_to_cart U P) d)"
    and "schema (after (remove_from_cart U P) d)"
    and "schema (after (view_cart U) d)"
    and "schema (after (checkout U) d)"
proof -
  show "schema (after (add_product lib data) d)"
    by (rule schema_request [OF _ assms])
      (auto simp: add_product_def stored_session_add split: option.splits
        intro!: schema_commit_return)
  show "schema (after (delete_product P) d)"
    by (rule schema_request [OF _ assms])
      (auto simp: delete_product_def stored_session_add split: option.splits sum.splits
        intro!: schema_commit_return)
  show "schema (after (update_product lib P data) d)"
    by (rule schema_request [OF _ assms])
      (auto simp: update_product_def stored_session_add split: option.splits sum.splits
        intro!: schema_commit_return)
  show "schema (after (add_to_cart U P) d)"
    by (rule schema_request [OF _ assms])
      (auto simp: add_to_cart_def Let_def stored_session_add split: option.splits sum.splits
        intro!: schema_commit_return)
  show "schema (after (remove_from_cart U P) d)"
    by (rule schema_request [OF _ assms])
      (auto simp: remove_from_cart_def stored_session_add split: option.splits sum.splits
        intro!: schema_commit_return)
  show "schema (after (view_cart U) d)"
    using assms by (simp add: after_def request_view_cart split: option.splits sum.splits)
  show "schema (after (checkout U) d)"
    by (rule schema_request [OF _ assms])
      (auto simp: checkout_def stored_checkout_loop split: option.splits
        intro!: schema_commit_return)
qed

lemma schema_shop: "schema shop"
  by (simp add: schema_def primary_keys_def unique_usernames_def examples)

end
